theory Spec2Isabelle
  imports Main "HOL-Library.Word" "HOL-Library.Signed_Division"
begin

unbundle bit_operations_syntax

section \<open>Peer selection (src/peer\_select.cc): data model\<close>

text \<open>
  The selection engine of \<^verbatim>\<open>peer_select.cc\<close> is a callback-chained state machine over
  one \<^verbatim>\<open>ps_state\<close> object.  Every function of the file is embedded as a function on a
  record that holds the fields of \<^verbatim>\<open>ps_state\<close> together with the parts of the
  surrounding process the file reads or writes (the event queue, the outstanding DNS
  lookups, the global clock, the statistics counter).  Functions of other modules
  (neighbours, net-db, ACLs, the parent strategies) and the configuration are parameters,
  collected in the record \<open>env\<close>.
\<close>

datatype direct_t = DIRECT_UNKNOWN | DIRECT_NO | DIRECT_MAYBE | DIRECT_YES

datatype ping_status_t = PING_NONE | PING_WAITING | PING_DONE

datatype peer_t = PEER_NONE | PEER_SIBLING | PEER_PARENT | PEER_MULTICAST

datatype protocol_t = PROTO_NONE | PROTO_HTTP | PROTO_WAIS | PROTO_ICP | PROTO_HTCP

datatype icp_opcode = ICP_INVALID | ICP_QUERY | ICP_HIT | ICP_MISS | ICP_ERR | ICP_SECHO
  | ICP_DECHO | ICP_MISS_NOFETCH | ICP_DENIED | ICP_HIT_OBJ

datatype hier_code = HIER_NONE | HIER_DIRECT | SIBLING_HIT | PARENT_HIT | DEFAULT_PARENT
  | FIRSTUP_PARENT | FIRST_PARENT_MISS | CLOSEST_PARENT_MISS | CLOSEST_PARENT
  | CLOSEST_DIRECT | ROUNDROBIN_PARENT | CD_PARENT_HIT | CD_SIBLING_HIT | CARP
  | ANY_OLD_PARENT | USERHASH_PARENT | SOURCEHASH_PARENT | PINNED

datatype acl_list = AlwaysDirect | NeverDirect

datatype fault = AssertionFailed | NullPointer | DivisionByZero

text \<open>
  An \<^verbatim>\<open>Ip::Address\<close>: the functions below only ask whether it is the any-address
  (the value of a default-constructed address), whether it is IPv4, and set its port.
\<close>

record ip_address =
  addr_bits :: nat
  addr_v4 :: bool
  addr_port :: nat

definition no_addr :: ip_address where
  "no_addr = \<lparr>addr_bits = 0, addr_v4 = False, addr_port = 0\<rparr>"

definition IsAnyAddr :: "ip_address \<Rightarrow> bool" where
  "IsAnyAddr a = (addr_bits a = 0)"

definition IsIPv4 :: "ip_address \<Rightarrow> bool" where
  "IsIPv4 a = addr_v4 a"

definition SetPort :: "ip_address \<Rightarrow> nat \<Rightarrow> ip_address" where
  "SetPort a p = a\<lparr>addr_port := p\<rparr>"

record peer =
  peer_host :: string
  in_addr :: ip_address
  http_port :: nat
  closest_only :: bool
  no_tproxy :: bool
  basetime :: int
  weight :: int

record ping_data =
  start :: int
  stop :: int
  n_sent :: int
  n_recv :: int
  n_replies_expected :: int
  timeout :: int
  timedout :: int
  w_rtt :: int
  p_rtt :: int

text \<open>
  The pinned connection of a request: its peer, and whether
  \<^verbatim>\<open>Comm::IsConnOpen(validatePinnedConnection(request, pear))\<close> holds.
\<close>

record pinned_conn =
  pinnedPeer :: "peer option"
  pinned_open :: bool

record request =
  req_host :: string
  req_port :: nat
  protocol :: protocol_t
  hierarchical :: bool
  no_direct :: bool
  loopdetect :: bool
  spoof_client_ip :: bool
  client_addr :: ip_address
  pinnedConnection :: "pinned_conn option"
  hier_ping :: "ping_data option"
  peer_select_start :: "int option"
  msg_locks :: int

record store_entry =
  ping_status :: ping_status_t
  KEY_PRIVATE :: bool
  lock_count :: int

record ipcache_addrs =
  in_addrs :: "ip_address list"
  cur :: nat

definition count :: "ipcache_addrs \<Rightarrow> nat" where
  "count ia = length (in_addrs ia)"

record connection =
  remote :: ip_address
  local_addr :: ip_address
  peerType :: hier_code

record icp_common_t =
  opcode :: icp_opcode
  flags :: "32 word"
  pad :: "32 word"

text \<open>
  An HTCP reply.  The two floating-point fields \<^verbatim>\<open>cto.rtt\<close> and \<^verbatim>\<open>cto.hops\<close> enter the
  code only through the test \<^verbatim>\<open>cto.rtt > 0\<close> and the conversions \<^verbatim>\<open>(int) cto.rtt\<close> and
  \<^verbatim>\<open>(int) cto.hops\<close>; the record holds the results of these three expressions.
\<close>

record htcpReplyData =
  htcp_hit :: bool
  cto_rtt_positive :: bool
  cto_rtt_int :: int
  cto_hops_int :: int

text \<open>
  What \<^verbatim>\<open>peerHandlePingReply\<close> receives as \<^verbatim>\<open>proto\<close> and \<^verbatim>\<open>pingdata\<close>: an ICP header with
  \<^verbatim>\<open>PROTO_ICP\<close>, HTCP data with \<^verbatim>\<open>PROTO_HTCP\<close>, or any other protocol tag.
\<close>

datatype pingdata = Icp icp_common_t | Htcp htcpReplyData | Other protocol_t

datatype 'a control = Returned 'a | Goes_on 'a

type_synonym FwdServer = "peer option \<times> hier_code"

subsection \<open>Configuration and the functions of other modules\<close>

record env =
  USE_ICMP :: bool
  USE_HTCP :: bool
  USE_CACHE_DIGESTS :: bool
  forward_max_tries :: int
  acl_AlwaysDirect :: bool
  acl_NeverDirect :: bool
  minDirectRtt :: int
  minDirectHops :: int
  prefer_direct :: bool
  nonhierarchical_direct :: bool
  query_icmp :: bool
  neighbors_do_private_keys :: bool
  peers :: "peer list"
  debug_level :: nat
  DBG_IMPORTANT :: nat
  ICP_FLAG_SRC_RTT :: "32 word"
  netdbHostRtt :: "string \<Rightarrow> int"
  netdbHostHops :: "string \<Rightarrow> int"
  whichPeer :: "ip_address \<Rightarrow> peer option"
  neighborsCount :: "request \<Rightarrow> int"
  neighborsDigestSelect :: "request \<Rightarrow> peer option"
  netdbClosestParent :: "request \<Rightarrow> peer option"
  neighborType :: "peer \<Rightarrow> request \<Rightarrow> peer_t"
  peerHTTPOkay :: "peer \<Rightarrow> request \<Rightarrow> bool"
  peerAllowedToUse :: "peer \<Rightarrow> request \<Rightarrow> bool"
  neighborsUdpPing :: "request \<Rightarrow> store_entry \<Rightarrow> int \<times> int \<times> int"
  getDefaultParent :: "request \<Rightarrow> peer option"
  peerUserHashSelectParent :: "request \<Rightarrow> peer option"
  peerSourceHashSelectParent :: "request \<Rightarrow> peer option"
  carpSelectParent :: "request \<Rightarrow> peer option"
  getRoundRobinParent :: "request \<Rightarrow> peer option"
  getWeightedRoundRobinParent :: "request \<Rightarrow> peer option"
  getFirstUpParent :: "request \<Rightarrow> peer option"
  getAnyParent :: "request \<Rightarrow> peer option"
  outgoingAddress :: "request \<Rightarrow> connection \<Rightarrow> ip_address"

text \<open>
  \<open>neighborsUdpPing\<close> returns the number of queries sent, and the two values it writes
  through its pointer arguments: the number of replies expected and the timeout.
  \<open>debug_level\<close> is the level set for debug section 44: a \<^verbatim>\<open>debugs(44, l, ...)\<close>
  evaluates its message only when \<open>l \<le> debug_level\<close>.  The strategies and look-ups are
  taken as functions of the request: the round-robin counters and the net-db, which
  some of them update elsewhere, are not part of this file.
\<close>

subsection \<open>The selection context and its surroundings\<close>

record ps_state =
  request :: request
  entry :: "store_entry option"
  always_direct :: int
  never_direct :: int
  direct :: direct_t
  callback :: bool
  servers :: "FwdServer list"
  paths :: "connection list"
  first_parent_miss :: ip_address
  closest_parent_miss :: ip_address
  hit :: "peer option"
  hit_type :: peer_t
  ping :: ping_data
  acl_checklist :: "acl_list option"
  callback_data_valid :: bool
  callback_calls :: "connection list list"
  event_queue :: nat
  dns_lookups :: "string list"
  current_time :: int
  PeerStats_timeouts :: int
  null_entry_url :: nat
  netdb_updates :: "(peer \<times> int \<times> int) list"
  entry_unlocked :: "store_entry option"
  freed :: bool

text \<open>
  Fields up to \<open>acl_checklist\<close> are those of \<^verbatim>\<open>ps_state\<close>; \<open>callback\<close> tells whether the
  function pointer is non-null, and \<open>paths\<close> is the caller's list behind the pointer.
  The others are the surroundings:
  \<^item> \<open>callback_data_valid\<close>: what \<^verbatim>\<open>cbdataReferenceValid(callback_data)\<close> returns;
  \<^item> \<open>callback_calls\<close>: the invocations of the callback, each with the paths passed;
  \<^item> \<open>event_queue\<close>: the number of \<^verbatim>\<open>peerPingTimeout\<close> events scheduled for this context;
  \<^item> \<open>dns_lookups\<close>: the hosts handed to \<^verbatim>\<open>ipcache_nbgethostbyname\<close> and not yet answered;
  \<^item> \<open>current_time\<close> (in milliseconds) and \<open>PeerStats_timeouts\<close>: the two globals;
  \<^item> \<open>null_entry_url\<close>: how often \<^verbatim>\<open>entry->url()\<close> was evaluated through a null \<open>entry\<close>;
  \<^item> \<open>netdb_updates\<close>: the calls of \<^verbatim>\<open>netdbUpdatePeer\<close>;
  \<^item> \<open>entry_unlocked\<close>: the cache entry as it is left by \<^verbatim>\<open>unlock()\<close>;
  \<^item> \<open>freed\<close>: \<^verbatim>\<open>cbdataFree(psstate)\<close> has run.
\<close>

section \<open>The functions of peer\_select.cc\<close>

text \<open>
  A function that can hit a failed \<^verbatim>\<open>assert\<close>, a null pointer or a division by zero
  returns \<open>fault + ps_state\<close>.  The \<^verbatim>\<open>debugs\<close> messages are modelled only where they
  evaluate \<^verbatim>\<open>entry->url()\<close> with nothing checking \<open>entry\<close> before: \<open>entry_url env l\<close> is the
  evaluation of such a message of level \<open>l\<close>.
\<close>

definition unsigned_int :: "int \<Rightarrow> nat" where
  "unsigned_int i = nat (i mod 2 ^ 32)"

text \<open>
  \<open>int32 i\<close> is the value an \<^verbatim>\<open>int\<close> holds for the mathematical result \<open>i\<close>: 32 bits in
  two's complement, wrapping around (also for the one quotient that does not fit,
  \<^verbatim>\<open>INT_MIN / -1\<close>).  \<^verbatim>\<open>tvSubMsec\<close> returns an \<^verbatim>\<open>int\<close>; the clock counts milliseconds.
\<close>

definition int32 :: "int \<Rightarrow> int" where
  "int32 i = (i + 2 ^ 31) mod 2 ^ 32 - 2 ^ 31"

definition tvSubMsec :: "int \<Rightarrow> int \<Rightarrow> int" where
  "tvSubMsec t1 t2 = int32 (t2 - t1)"

definition entry_url :: "env \<Rightarrow> nat \<Rightarrow> 'a ps_state_scheme \<Rightarrow> 'a ps_state_scheme" where
  "entry_url env l ps =
     (if l \<le> debug_level env \<and> entry ps = None
      then ps\<lparr>null_entry_url := null_entry_url ps + 1\<rparr> else ps)"

definition set_ping_status :: "ping_status_t \<Rightarrow> ps_state \<Rightarrow> ps_state" where
  "set_ping_status st ps = ps\<lparr>entry := map_option (\<lambda>e. e\<lparr>ping_status := st\<rparr>) (entry ps)\<rparr>"

definition peerAddFwdServer :: "peer option \<Rightarrow> hier_code \<Rightarrow> ps_state \<Rightarrow> ps_state" where
  "peerAddFwdServer p code ps = ps\<lparr>servers := servers ps @ [(p, code)]\<rparr>"

definition peerSelectStateFree :: "ps_state \<Rightarrow> ps_state" where
  "peerSelectStateFree ps =
     (let ps1 = (case entry ps of
                   None \<Rightarrow> ps
                 | Some e \<Rightarrow>
                     (if ping_status e = PING_WAITING
                      then ps\<lparr>event_queue := event_queue ps - 1\<rparr> else ps)
                     \<lparr>entry := Some (e\<lparr>ping_status := PING_DONE\<rparr>)\<rparr>);
          ps2 = ps1\<lparr>acl_checklist := None\<rparr>;
          ps3 = ps2\<lparr>request := (request ps2)\<lparr>msg_locks := msg_locks (request ps2) - 1\<rparr>\<rparr>;
          ps4 = (case entry ps3 of
                   None \<Rightarrow> ps3
                 | Some e \<Rightarrow>
                     ps3\<lparr>entry_unlocked := Some (e\<lparr>lock_count := lock_count e - 1\<rparr>),
                        entry := None\<rparr>)
      in ps4\<lparr>freed := True\<rparr>)"

definition peerSelectIcpPing ::
  "env \<Rightarrow> request \<Rightarrow> direct_t \<Rightarrow> store_entry option \<Rightarrow> fault + int" where
  "peerSelectIcpPing env req dir ent =
     (case ent of
        None \<Rightarrow> Inl AssertionFailed
      | Some e \<Rightarrow>
          if ping_status e \<noteq> PING_NONE then Inl AssertionFailed
          else if dir = DIRECT_YES then Inl AssertionFailed
          else if \<not> hierarchical req \<and> dir \<noteq> DIRECT_NO then Inr 0
          else if KEY_PRIVATE e \<and> \<not> neighbors_do_private_keys env
          then (if dir \<noteq> DIRECT_NO then Inr 0 else Inr (neighborsCount env req))
          else Inr (neighborsCount env req))"

text \<open>
  \<^verbatim>\<open>peerSelectDnsPaths\<close>: either hands the host of the first forward-server record to the
  DNS cache and returns, or finishes the selection.
\<close>

definition peerSelectDnsPaths :: "env \<Rightarrow> ps_state \<Rightarrow> fault + ps_state" where
  "peerSelectDnsPaths env ps =
     (if servers ps \<noteq> [] \<and> length (paths ps) < unsigned_int (forward_max_tries env) then
        (let fs = hd (servers ps);
             host = (case fst fs of Some p \<Rightarrow> peer_host p | None \<Rightarrow> req_host (request ps));
             ps1 = entry_url env 2 ps
         in Inr (ps1\<lparr>dns_lookups := dns_lookups ps1 @ [host]\<rparr>))
      else
        (let cb = callback ps;
             ps1 = ps\<lparr>callback := False\<rparr>;
             ps2 = (if length (paths ps1) < 1 then entry_url env (DBG_IMPORTANT env) ps1
                    else entry_url env 2 ps1);
             ps3 = ps2\<lparr>ping := (ping ps2)\<lparr>stop := current_time ps2\<rparr>\<rparr>;
             ps4 = ps3\<lparr>request := (request ps3)\<lparr>hier_ping := Some (ping ps3)\<rparr>\<rparr>
         in if callback_data_valid ps4 then
              (if cb then
                 Inr (peerSelectStateFree (ps4\<lparr>callback_calls := callback_calls ps4 @ [paths ps4]\<rparr>))
               else Inl NullPointer)
            else Inr (peerSelectStateFree ps4)))"

text \<open>
  The loop of \<^verbatim>\<open>peerSelectDnsResults\<close> over the addresses of one DNS result, with its two
  variables \<open>n\<close> and \<open>ip\<close>; it works on the list \<open>paths\<close>.
\<close>

function peerSelectDnsResults_loop ::
  "env \<Rightarrow> request \<Rightarrow> FwdServer \<Rightarrow> ipcache_addrs \<Rightarrow> nat \<Rightarrow> nat \<Rightarrow> connection list
   \<Rightarrow> connection list" where
  "peerSelectDnsResults_loop env req fs ia n ip pths =
     (if n < count ia then
        (let ip1 = (if ip \<ge> count ia then 0 else ip) in
         if length pths \<ge> unsigned_int (forward_max_tries env) then pths
         else if spoof_client_ip req
                 \<and> \<not> (case fst fs of Some pr \<Rightarrow> no_tproxy pr | None \<Rightarrow> False)
                 \<and> IsIPv4 (in_addrs ia ! n) \<noteq> IsIPv4 (client_addr req)
         then peerSelectDnsResults_loop env req fs ia (n + 1) (ip1 + 1) pths
         else
           (let p0 = \<lparr>remote = in_addrs ia ! n, local_addr = no_addr, peerType = HIER_NONE\<rparr>;
                p1 = p0\<lparr>remote := SetPort (remote p0)
                        (case fst fs of Some pr \<Rightarrow> http_port pr | None \<Rightarrow> req_port req)\<rparr>;
                p2 = p1\<lparr>peerType := snd fs\<rparr>;
                p3 = p2\<lparr>local_addr := outgoingAddress env req p2\<rparr>
            in peerSelectDnsResults_loop env req fs ia (n + 1) (ip1 + 1) (pths @ [p3])))
      else pths)"
  by pat_completeness auto
termination
  by (relation "measure (\<lambda>(env, req, fs, ia, n, ip, pths). count ia - n)") auto

declare peerSelectDnsResults_loop.simps [simp del]

definition peerSelectDnsResults ::
  "env \<Rightarrow> ipcache_addrs option \<Rightarrow> ps_state \<Rightarrow> fault + ps_state" where
  "peerSelectDnsResults env ia ps =
     (case ia of
        Some a \<Rightarrow>
          if \<not> cur a < count a then Inl AssertionFailed
          else (case servers ps of
                  [] \<Rightarrow> Inl NullPointer
                | fs # rest \<Rightarrow>
                    peerSelectDnsPaths env
                      (ps\<lparr>paths := peerSelectDnsResults_loop env (request ps) fs a 0 (cur a) (paths ps),
                          servers := rest\<rparr>))
      | None \<Rightarrow>
          (case servers ps of
             [] \<Rightarrow> Inl NullPointer
           | fs # rest \<Rightarrow> peerSelectDnsPaths env (ps\<lparr>servers := rest\<rparr>)))"

definition peerCheckNetdbDirect :: "env \<Rightarrow> ps_state \<Rightarrow> bool" where
  "peerCheckNetdbDirect env ps =
     (if USE_ICMP env then
        (if direct ps = DIRECT_NO then False
         else
           (let myrtt = netdbHostRtt env (req_host (request ps)) in
            if myrtt \<noteq> 0 \<and> myrtt \<le> minDirectRtt env then True
            else
              (let myhops = netdbHostHops env (req_host (request ps)) in
               if myhops \<noteq> 0 \<and> myhops \<le> minDirectHops env then True
               else
                 (case whichPeer env (closest_parent_miss ps) of
                    None \<Rightarrow> False
                  | Some p \<Rightarrow> myrtt \<noteq> 0 \<and> myrtt \<le> p_rtt (ping ps)))))
      else False)"

definition peerSelectPinned :: "env \<Rightarrow> ps_state \<Rightarrow> ps_state" where
  "peerSelectPinned env ps =
     (case pinnedConnection (request ps) of
        None \<Rightarrow> ps
      | Some pc \<Rightarrow>
          if pinned_open pc then
            (case pinnedPeer pc of
               Some pear \<Rightarrow>
                 if peerAllowedToUse env pear (request ps)
                 then set_ping_status PING_DONE (peerAddFwdServer (Some pear) PINNED ps)
                 else ps
             | None \<Rightarrow>
                 if direct ps \<noteq> DIRECT_NO
                 then set_ping_status PING_DONE (peerAddFwdServer None PINNED ps)
                 else ps)
          else ps)"

definition peerGetSomeNeighbor :: "env \<Rightarrow> ps_state \<Rightarrow> fault + ps_state" where
  "peerGetSomeNeighbor env ps =
     (case entry ps of
        None \<Rightarrow> Inl NullPointer
      | Some e \<Rightarrow>
          if ping_status e \<noteq> PING_NONE then Inl AssertionFailed
          else if direct ps = DIRECT_YES then Inr (set_ping_status PING_DONE ps)
          else
            (case (if USE_CACHE_DIGESTS env then neighborsDigestSelect env (request ps) else None) of
               Some p \<Rightarrow>
                 Inr (set_ping_status PING_DONE
                       (peerAddFwdServer (Some p)
                          (if neighborType env p (request ps) = PEER_PARENT
                           then CD_PARENT_HIT else CD_SIBLING_HIT) ps))
             | None \<Rightarrow>
                 (case netdbClosestParent env (request ps) of
                    Some p \<Rightarrow>
                      Inr (set_ping_status PING_DONE (peerAddFwdServer (Some p) CLOSEST_PARENT ps))
                  | None \<Rightarrow>
                      (case peerSelectIcpPing env (request ps) (direct ps) (entry ps) of
                         Inl f \<Rightarrow> Inl f
                       | Inr n \<Rightarrow>
                           if n \<noteq> 0 then
                             (let ps1 = ps\<lparr>ping := (ping ps)\<lparr>start := current_time ps\<rparr>\<rparr>;
                                  (sent, expected, tmo) = neighborsUdpPing env (request ps1) e;
                                  ps2 = ps1\<lparr>ping := (ping ps1)\<lparr>n_sent := sent,
                                          n_replies_expected := expected, timeout := tmo\<rparr>\<rparr>
                              in if n_replies_expected (ping ps2) > 0
                                 then Inr ((set_ping_status PING_WAITING ps2)
                                            \<lparr>event_queue := event_queue ps2 + 1\<rparr>)
                                 else Inr (set_ping_status PING_DONE ps2))
                           else Inr (set_ping_status PING_DONE ps)))))"

definition peerGetSomeNeighborReplies :: "env \<Rightarrow> ps_state \<Rightarrow> fault + ps_state" where
  "peerGetSomeNeighborReplies env ps =
     (case entry ps of
        None \<Rightarrow> Inl NullPointer
      | Some e \<Rightarrow>
          if ping_status e \<noteq> PING_WAITING then Inl AssertionFailed
          else if direct ps = DIRECT_YES then Inl AssertionFailed
          else if peerCheckNetdbDirect env ps then Inr (peerAddFwdServer None CLOSEST_DIRECT ps)
          else
            (let (p, code) =
               (case hit ps of
                  Some h \<Rightarrow> (Some h, if hit_type ps = PEER_PARENT then PARENT_HIT else SIBLING_HIT)
                | None \<Rightarrow>
                    if \<not> IsAnyAddr (closest_parent_miss ps)
                    then (whichPeer env (closest_parent_miss ps), CLOSEST_PARENT_MISS)
                    else if \<not> IsAnyAddr (first_parent_miss ps)
                    then (whichPeer env (first_parent_miss ps), FIRST_PARENT_MISS)
                    else (None, HIER_NONE))
             in if p \<noteq> None \<and> code \<noteq> HIER_NONE then Inr (peerAddFwdServer p code ps)
                else Inr ps))"

definition peerGetSomeDirect :: "ps_state \<Rightarrow> ps_state" where
  "peerGetSomeDirect ps =
     (if direct ps = DIRECT_NO then ps
      else if protocol (request ps) = PROTO_WAIS then ps
      else peerAddFwdServer None HIER_DIRECT ps)"

definition peerGetSomeParent :: "env \<Rightarrow> ps_state \<Rightarrow> ps_state" where
  "peerGetSomeParent env ps =
     (if direct ps = DIRECT_YES then ps
      else
        (let r = request ps;
             (p, code) =
               (case getDefaultParent env r of Some q \<Rightarrow> (Some q, DEFAULT_PARENT) | None \<Rightarrow>
               (case peerUserHashSelectParent env r of Some q \<Rightarrow> (Some q, USERHASH_PARENT) | None \<Rightarrow>
               (case peerSourceHashSelectParent env r of Some q \<Rightarrow> (Some q, SOURCEHASH_PARENT) | None \<Rightarrow>
               (case carpSelectParent env r of Some q \<Rightarrow> (Some q, CARP) | None \<Rightarrow>
               (case getRoundRobinParent env r of Some q \<Rightarrow> (Some q, ROUNDROBIN_PARENT) | None \<Rightarrow>
               (case getWeightedRoundRobinParent env r of Some q \<Rightarrow> (Some q, ROUNDROBIN_PARENT) | None \<Rightarrow>
               (case getFirstUpParent env r of Some q \<Rightarrow> (Some q, FIRSTUP_PARENT) | None \<Rightarrow>
               (case getAnyParent env r of Some q \<Rightarrow> (Some q, ANY_OLD_PARENT) | None \<Rightarrow>
                (None, HIER_NONE)))))))))
         in if code \<noteq> HIER_NONE then peerAddFwdServer p code ps else ps))"

fun peerGetAllParents_loop :: "env \<Rightarrow> peer list \<Rightarrow> ps_state \<Rightarrow> ps_state" where
  "peerGetAllParents_loop env [] ps = ps"
| "peerGetAllParents_loop env (p # rest) ps =
     (if neighborType env p (request ps) \<noteq> PEER_PARENT then peerGetAllParents_loop env rest ps
      else if \<not> peerHTTPOkay env p (request ps) then peerGetAllParents_loop env rest ps
      else peerGetAllParents_loop env rest (peerAddFwdServer (Some p) ANY_OLD_PARENT ps))"

definition peerGetAllParents :: "env \<Rightarrow> ps_state \<Rightarrow> ps_state" where
  "peerGetAllParents env ps =
     (let ps1 = peerGetAllParents_loop env (peers env) ps in
      case getDefaultParent env (request ps1) of
        Some p \<Rightarrow> peerAddFwdServer (Some p) DEFAULT_PARENT ps1
      | None \<Rightarrow> ps1)"

text \<open>
  \<^verbatim>\<open>peerSelectFoo\<close>, in its consecutive parts: the block under
  \<^verbatim>\<open>if (ps->direct == DIRECT_UNKNOWN)\<close>, which either launches an ACL check and returns,
  or decides \<open>direct\<close>; the pinned probe and the neighbour phase, which returns when the
  pings are out; the \<^verbatim>\<open>switch (ps->direct)\<close>; and the function as a whole, which ends in
  \<^verbatim>\<open>peerSelectDnsPaths\<close>.  A launched \<^verbatim>\<open>nonBlockingCheck\<close> is the checklist stored in
  \<open>acl_checklist\<close>.
\<close>

definition peerSelectFoo_direct :: "env \<Rightarrow> ps_state \<Rightarrow> ps_state control" where
  "peerSelectFoo_direct env ps =
     (if direct ps = DIRECT_UNKNOWN then
        (if always_direct ps = 0 \<and> acl_AlwaysDirect env
         then Returned (ps\<lparr>acl_checklist := Some AlwaysDirect\<rparr>)
         else if always_direct ps > 0 then Goes_on (ps\<lparr>direct := DIRECT_YES\<rparr>)
         else if never_direct ps = 0 \<and> acl_NeverDirect env
         then Returned (ps\<lparr>acl_checklist := Some NeverDirect\<rparr>)
         else if never_direct ps > 0 then Goes_on (ps\<lparr>direct := DIRECT_NO\<rparr>)
         else if no_direct (request ps) then Goes_on (ps\<lparr>direct := DIRECT_NO\<rparr>)
         else if loopdetect (request ps) then Goes_on (ps\<lparr>direct := DIRECT_YES\<rparr>)
         else if peerCheckNetdbDirect env ps then Goes_on (ps\<lparr>direct := DIRECT_YES\<rparr>)
         else Goes_on (ps\<lparr>direct := DIRECT_MAYBE\<rparr>))
      else Goes_on ps)"

definition peerSelectFoo_switch :: "env \<Rightarrow> ps_state \<Rightarrow> ps_state" where
  "peerSelectFoo_switch env ps =
     (case direct ps of
        DIRECT_YES \<Rightarrow> peerGetSomeDirect ps
      | DIRECT_NO \<Rightarrow> peerGetAllParents env (peerGetSomeParent env ps)
      | _ \<Rightarrow>
          (let ps1 = (if prefer_direct env then peerGetSomeDirect ps else ps);
               ps2 = (if hierarchical (request ps1) \<or> \<not> nonhierarchical_direct env
                      then peerGetSomeParent env ps1 else ps1)
           in if \<not> prefer_direct env then peerGetSomeDirect ps2 else ps2))"

definition peerSelectFoo_neighbors :: "env \<Rightarrow> ps_state \<Rightarrow> fault + ps_state control" where
  "peerSelectFoo_neighbors env ps =
     (let ps1 = (if (case entry ps of None \<Rightarrow> True | Some e \<Rightarrow> ping_status e = PING_NONE)
                 then peerSelectPinned env ps else ps)
      in case entry ps1 of
           None \<Rightarrow> Inr (Goes_on ps1)
         | Some e \<Rightarrow>
             if ping_status e = PING_NONE then
               (case peerGetSomeNeighbor env ps1 of
                  Inl f \<Rightarrow> Inl f
                | Inr ps2 \<Rightarrow>
                    if (case entry ps2 of None \<Rightarrow> False
                        | Some e2 \<Rightarrow> ping_status e2 = PING_WAITING)
                    then Inr (Returned ps2)
                    else Inr (Goes_on ps2))
             else if ping_status e = PING_WAITING then
               (case peerGetSomeNeighborReplies env ps1 of
                  Inl f \<Rightarrow> Inl f
                | Inr ps2 \<Rightarrow> Inr (Goes_on (set_ping_status PING_DONE ps2)))
             else Inr (Goes_on ps1))"

definition peerSelectFoo :: "env \<Rightarrow> ps_state \<Rightarrow> fault + ps_state" where
  "peerSelectFoo env ps =
     (case peerSelectFoo_direct env ps of
        Returned ps1 \<Rightarrow> Inr ps1
      | Goes_on ps1 \<Rightarrow>
          (case peerSelectFoo_neighbors env ps1 of
             Inl f \<Rightarrow> Inl f
           | Inr (Returned ps2) \<Rightarrow> Inr ps2
           | Inr (Goes_on ps2) \<Rightarrow> peerSelectDnsPaths env (peerSelectFoo_switch env ps2)))"

definition peerCheckNeverDirectDone :: "env \<Rightarrow> int \<Rightarrow> ps_state \<Rightarrow> fault + ps_state" where
  "peerCheckNeverDirectDone env answer ps =
     peerSelectFoo env
       (ps\<lparr>acl_checklist := None, never_direct := (if answer \<noteq> 0 then 1 else - 1)\<rparr>)"

definition peerCheckAlwaysDirectDone :: "env \<Rightarrow> int \<Rightarrow> ps_state \<Rightarrow> fault + ps_state" where
  "peerCheckAlwaysDirectDone env answer ps =
     peerSelectFoo env
       (ps\<lparr>acl_checklist := None, always_direct := (if answer \<noteq> 0 then 1 else - 1)\<rparr>)"

definition peerPingTimeout :: "env \<Rightarrow> ps_state \<Rightarrow> fault + ps_state" where
  "peerPingTimeout env ps =
     (if \<not> callback_data_valid ps then
        (case entry ps of
           None \<Rightarrow> Inl NullPointer
         | Some e \<Rightarrow> Inr (peerSelectStateFree (set_ping_status PING_DONE ps)))
      else
        peerSelectFoo env
          (ps\<lparr>PeerStats_timeouts := PeerStats_timeouts ps + 1,
              ping := (ping ps)\<lparr>timedout := 1\<rparr>\<rparr>))"

text \<open>
  The parent-miss update for ICP.  \<^verbatim>\<open>rtt\<close> and \<^verbatim>\<open>hops\<close> are the two 16-bit halves of the
  header's \<^verbatim>\<open>pad\<close>; the weighted estimate is computed in \<^verbatim>\<open>int\<close>: the subtraction wraps
  around and the division truncates.  In the HTCP update below, \<^verbatim>\<open>(int) htcp->cto.rtt * 1000\<close>
  is the cast value times 1000, again in \<^verbatim>\<open>int\<close>.
\<close>

definition peerIcpParentMiss :: "env \<Rightarrow> peer \<Rightarrow> icp_common_t \<Rightarrow> ps_state \<Rightarrow> fault + ps_state" where
  "peerIcpParentMiss env p header ps =
     (let ps1 =
        (if USE_ICMP env \<and> query_icmp env \<and> (flags header AND ICP_FLAG_SRC_RTT env) \<noteq> 0 then
           (let rtt = uint (pad header AND 0xFFFF);
                hops = uint (drop_bit 16 (pad header) AND 0xFFFF);
                psa = (if rtt > 0 \<and> rtt < 0xFFFF
                       then ps\<lparr>netdb_updates := netdb_updates ps @ [(p, rtt, hops)]\<rparr> else ps)
            in if rtt \<noteq> 0 \<and> (p_rtt (ping psa) = 0 \<or> rtt < p_rtt (ping psa))
               then psa\<lparr>closest_parent_miss := in_addr p, ping := (ping psa)\<lparr>p_rtt := rtt\<rparr>\<rparr>
               else psa)
         else ps)
      in if closest_only p then Inr ps1
         else if \<not> IsAnyAddr (closest_parent_miss ps1) then Inr ps1
         else if weight p = 0 then Inl DivisionByZero
         else
           (let rtt0 = int32 (int32 (tvSubMsec (start (ping ps1)) (current_time ps1) - basetime p) sdiv weight p);
                rtt = (if rtt0 < 1 then 1 else rtt0)
            in if IsAnyAddr (first_parent_miss ps1) \<or> rtt < w_rtt (ping ps1)
               then Inr (ps1\<lparr>first_parent_miss := in_addr p, ping := (ping ps1)\<lparr>w_rtt := rtt\<rparr>\<rparr>)
               else Inr ps1))"

definition peerHandleIcpReply ::
  "env \<Rightarrow> peer \<Rightarrow> peer_t \<Rightarrow> icp_common_t \<Rightarrow> ps_state \<Rightarrow> fault + ps_state" where
  "peerHandleIcpReply env p type header ps =
     (let op = opcode header;
          ps1 = entry_url env 3 ps;
          ps2 = ps1\<lparr>ping := (ping ps1)\<lparr>n_recv := n_recv (ping ps1) + 1\<rparr>\<rparr>
      in if op = ICP_MISS \<or> op = ICP_DECHO then
           (case (if type = PEER_PARENT then peerIcpParentMiss env p header ps2 else Inr ps2) of
              Inl f \<Rightarrow> Inl f
            | Inr ps3 \<Rightarrow>
                if n_recv (ping ps3) < n_replies_expected (ping ps3) then Inr ps3
                else peerSelectFoo env ps3)
         else if op = ICP_HIT then peerSelectFoo env (ps2\<lparr>hit := Some p, hit_type := type\<rparr>)
         else if n_recv (ping ps2) < n_replies_expected (ping ps2) then Inr ps2
         else peerSelectFoo env ps2)"

definition peerHtcpParentMiss :: "env \<Rightarrow> peer \<Rightarrow> htcpReplyData \<Rightarrow> ps_state \<Rightarrow> fault + ps_state" where
  "peerHtcpParentMiss env p htcp ps =
     (let ps1 =
        (if USE_ICMP env \<and> query_icmp env \<and> cto_rtt_positive htcp then
           (let rtt = int32 (cto_rtt_int htcp * 1000);
                hops = int32 (cto_hops_int htcp * 1000);
                psa = ps\<lparr>netdb_updates := netdb_updates ps @ [(p, rtt, hops)]\<rparr>
            in if rtt \<noteq> 0 \<and> (p_rtt (ping psa) = 0 \<or> rtt < p_rtt (ping psa))
               then psa\<lparr>closest_parent_miss := in_addr p, ping := (ping psa)\<lparr>p_rtt := rtt\<rparr>\<rparr>
               else psa)
         else ps)
      in if closest_only p then Inr ps1
         else if \<not> IsAnyAddr (closest_parent_miss ps1) then Inr ps1
         else if weight p = 0 then Inl DivisionByZero
         else
           (let rtt0 = int32 (int32 (tvSubMsec (start (ping ps1)) (current_time ps1) - basetime p) sdiv weight p);
                rtt = (if rtt0 < 1 then 1 else rtt0)
            in if IsAnyAddr (first_parent_miss ps1) \<or> rtt < w_rtt (ping ps1)
               then Inr (ps1\<lparr>first_parent_miss := in_addr p, ping := (ping ps1)\<lparr>w_rtt := rtt\<rparr>\<rparr>)
               else Inr ps1))"

definition peerHandleHtcpReply ::
  "env \<Rightarrow> peer \<Rightarrow> peer_t \<Rightarrow> htcpReplyData \<Rightarrow> ps_state \<Rightarrow> fault + ps_state" where
  "peerHandleHtcpReply env p type htcp ps =
     (let ps1 = entry_url env 3 ps;
          ps2 = ps1\<lparr>ping := (ping ps1)\<lparr>n_recv := n_recv (ping ps1) + 1\<rparr>\<rparr>
      in if htcp_hit htcp then peerSelectFoo env (ps2\<lparr>hit := Some p, hit_type := type\<rparr>)
         else
           (case (if type = PEER_PARENT then peerHtcpParentMiss env p htcp ps2 else Inr ps2) of
              Inl f \<Rightarrow> Inl f
            | Inr ps3 \<Rightarrow>
                if n_recv (ping ps3) < n_replies_expected (ping ps3) then Inr ps3
                else peerSelectFoo env ps3))"

definition peerHandlePingReply ::
  "env \<Rightarrow> peer \<Rightarrow> peer_t \<Rightarrow> pingdata \<Rightarrow> ps_state \<Rightarrow> fault + ps_state" where
  "peerHandlePingReply env p type pd ps =
     (case pd of
        Icp header \<Rightarrow> peerHandleIcpReply env p type header ps
      | Htcp htcp \<Rightarrow> if USE_HTCP env then peerHandleHtcpReply env p type htcp ps else Inr ps
      | Other proto \<Rightarrow> Inr ps)"

text \<open>
  \<^verbatim>\<open>peerSelect\<close> builds the context (the constructors of \<^verbatim>\<open>ps_state\<close> and \<^verbatim>\<open>ping_data\<close>
  zero every field) and enters \<^verbatim>\<open>peerSelectFoo\<close>.  Its arguments here: the caller's paths,
  the request, the optional entry, whether the caller's \<^verbatim>\<open>callback_data\<close> reference is
  valid, and the clock.
\<close>

definition new_ping_data :: ping_data where
  "new_ping_data = \<lparr>start = 0, stop = 0, n_sent = 0, n_recv = 0, n_replies_expected = 0,
     timeout = 0, timedout = 0, w_rtt = 0, p_rtt = 0\<rparr>"

definition new_ps_state :: "request \<Rightarrow> connection list \<Rightarrow> bool \<Rightarrow> int \<Rightarrow> ps_state" where
  "new_ps_state req pths valid now =
     \<lparr>request = req, entry = None, always_direct = 0, never_direct = 0,
      direct = DIRECT_UNKNOWN, callback = False, servers = [], paths = pths,
      first_parent_miss = no_addr, closest_parent_miss = no_addr, hit = None,
      hit_type = PEER_NONE, ping = new_ping_data, acl_checklist = None,
      callback_data_valid = valid, callback_calls = [], event_queue = 0, dns_lookups = [],
      current_time = now, PeerStats_timeouts = 0, null_entry_url = 0, netdb_updates = [],
      entry_unlocked = None, freed = False\<rparr>"

definition peerSelect ::
  "env \<Rightarrow> connection list \<Rightarrow> request \<Rightarrow> store_entry option \<Rightarrow> bool \<Rightarrow> int \<Rightarrow> fault + ps_state" where
  "peerSelect env pths req ent valid now =
     (let ps0 = new_ps_state req pths valid now;
          ps1 = ps0\<lparr>request := (request ps0)\<lparr>msg_locks := msg_locks (request ps0) + 1\<rparr>\<rparr>;
          ps2 = ps1\<lparr>entry := ent\<rparr>;
          ps3 = ps2\<lparr>callback := True\<rparr>;
          ps4 = (if USE_CACHE_DIGESTS env
                 then ps3\<lparr>request := (request ps3)\<lparr>peer_select_start := Some (current_time ps3)\<rparr>\<rparr>
                 else ps3);
          ps5 = ps4\<lparr>entry := map_option (\<lambda>e. e\<lparr>lock_count := lock_count e + 1\<rparr>) (entry ps4)\<rparr>
      in peerSelectFoo env ps5)"

section \<open>The callbacks as events\<close>

text \<open>
  Between two callbacks the context is suspended.  An event is one callback of the
  surrounding process into this file, or the caller's reference becoming invalid;
  \<open>handle\<close> runs the function the event stands for.  The event scheduler takes a timer
  event off its queue, and the DNS cache a lookup off its list, before the call.
\<close>

datatype event =
    AlwaysDirectDone int
  | NeverDirectDone int
  | PingReply peer peer_t pingdata
  | PingTimeout
  | DnsResult "ipcache_addrs option"
  | CallerGone

definition handle :: "env \<Rightarrow> event \<Rightarrow> ps_state \<Rightarrow> fault + ps_state" where
  "handle env ev ps =
     (case ev of
        AlwaysDirectDone answer \<Rightarrow> peerCheckAlwaysDirectDone env answer ps
      | NeverDirectDone answer \<Rightarrow> peerCheckNeverDirectDone env answer ps
      | PingReply p type pd \<Rightarrow> peerHandlePingReply env p type pd ps
      | PingTimeout \<Rightarrow> peerPingTimeout env (ps\<lparr>event_queue := event_queue ps - 1\<rparr>)
      | DnsResult ia \<Rightarrow> peerSelectDnsResults env ia (ps\<lparr>dns_lookups := tl (dns_lookups ps)\<rparr>)
      | CallerGone \<Rightarrow> Inr (ps\<lparr>callback_data_valid := False\<rparr>))"

text \<open>
  Modelled from the spec: when the other modules call back (the ACL checker, the timer,
  the DNS cache and the ICP/HTCP client are not part of this file).  The spec (section 5)
  has the context resume only on the callback of the subsystem it was handed to: an
  ACL answer while that check is outstanding, the timer while its event is scheduled, a
  DNS result while a lookup is outstanding, and a ping reply during the ping wait, that
  is while the entry's \<open>ping_status\<close> is \<open>PING_WAITING\<close>.  A freed context receives nothing.
\<close>

definition deliverable :: "event \<Rightarrow> ps_state \<Rightarrow> bool" where
  "deliverable ev ps =
     (case ev of
        AlwaysDirectDone answer \<Rightarrow> acl_checklist ps = Some AlwaysDirect
      | NeverDirectDone answer \<Rightarrow> acl_checklist ps = Some NeverDirect
      | PingReply p type pd \<Rightarrow>
          (case entry ps of None \<Rightarrow> False | Some e \<Rightarrow> ping_status e = PING_WAITING)
      | PingTimeout \<Rightarrow> event_queue ps > 0
      | DnsResult ia \<Rightarrow> dns_lookups ps \<noteq> []
      | CallerGone \<Rightarrow> True)"

definition deliver :: "env \<Rightarrow> int \<times> event \<Rightarrow> ps_state \<Rightarrow> fault + ps_state" where
  "deliver env tev ps =
     (if freed ps \<or> \<not> deliverable (snd tev) ps then Inr ps
      else handle env (snd tev) (ps\<lparr>current_time := fst tev\<rparr>))"

fun run :: "env \<Rightarrow> (int \<times> event) list \<Rightarrow> ps_state \<Rightarrow> fault + ps_state" where
  "run env [] ps = Inr ps"
| "run env (tev # rest) ps =
     (case deliver env tev ps of Inl f \<Rightarrow> Inl f | Inr ps1 \<Rightarrow> run env rest ps1)"

section \<open>The specification's wording of the selection rules\<close>

text \<open>
  The parent strategies in the priority order of the specification (section 4.5.1), each
  with its tag, and the first of them that returns a peer.
\<close>

definition parent_strategies :: "env \<Rightarrow> ((request \<Rightarrow> peer option) \<times> hier_code) list" where
  "parent_strategies env =
     [(getDefaultParent env, DEFAULT_PARENT),
      (peerUserHashSelectParent env, USERHASH_PARENT),
      (peerSourceHashSelectParent env, SOURCEHASH_PARENT),
      (carpSelectParent env, CARP),
      (getRoundRobinParent env, ROUNDROBIN_PARENT),
      (getWeightedRoundRobinParent env, ROUNDROBIN_PARENT),
      (getFirstUpParent env, FIRSTUP_PARENT),
      (getAnyParent env, ANY_OLD_PARENT)]"

fun first_non_null ::
  "((request \<Rightarrow> peer option) \<times> hier_code) list \<Rightarrow> request \<Rightarrow> (peer \<times> hier_code) option" where
  "first_non_null [] r = None"
| "first_non_null (s # rest) r =
     (case fst s r of Some p \<Rightarrow> Some (p, snd s) | None \<Rightarrow> first_non_null rest r)"


text \<open>The parents alive and usable for the request, as the all-parents fallback lists them.\<close>

definition alive_parents :: "env \<Rightarrow> request \<Rightarrow> peer list" where
  "alive_parents env r =
     filter (\<lambda>q. neighborType env q r = PEER_PARENT \<and> peerHTTPOkay env q r) (peers env)"

section \<open>Example configurations and inputs\<close>

definition ex_addr :: "nat \<Rightarrow> ip_address" where
  "ex_addr n = \<lparr>addr_bits = n, addr_v4 = True, addr_port = 0\<rparr>"

definition ex_peer :: "nat \<Rightarrow> peer" where
  "ex_peer n = \<lparr>peer_host = ''parent'', in_addr = ex_addr n, http_port = 3128,
     closest_only = False, no_tproxy = False, basetime = 0, weight = 1\<rparr>"

definition ex_request :: request where
  "ex_request = \<lparr>req_host = ''origin'', req_port = 80, protocol = PROTO_HTTP,
     hierarchical = True, no_direct = False, loopdetect = False, spoof_client_ip = False,
     client_addr = ex_addr 9, pinnedConnection = None, hier_ping = None,
     peer_select_start = None, msg_locks = 0\<rparr>"

definition ex_entry :: store_entry where
  "ex_entry = \<lparr>ping_status = PING_NONE, KEY_PRIVATE = False, lock_count = 0\<rparr>"

text \<open>
  A configuration with no ICMP, no digests, no ACLs and no neighbours at all; the examples
  below change the fields they need.
\<close>

definition ex_env :: env where
  "ex_env = \<lparr>USE_ICMP = False, USE_HTCP = True, USE_CACHE_DIGESTS = False,
     forward_max_tries = 10, acl_AlwaysDirect = False, acl_NeverDirect = False,
     minDirectRtt = 400, minDirectHops = 4, prefer_direct = False,
     nonhierarchical_direct = True, query_icmp = False, neighbors_do_private_keys = False,
     peers = [], debug_level = 1, DBG_IMPORTANT = 1, ICP_FLAG_SRC_RTT = 0x40000000,
     netdbHostRtt = (\<lambda>h. 0), netdbHostHops = (\<lambda>h. 0), whichPeer = (\<lambda>a. None),
     neighborsCount = (\<lambda>r. 0), neighborsDigestSelect = (\<lambda>r. None),
     netdbClosestParent = (\<lambda>r. None), neighborType = (\<lambda>p r. PEER_PARENT),
     peerHTTPOkay = (\<lambda>p r. True), peerAllowedToUse = (\<lambda>p r. True),
     neighborsUdpPing = (\<lambda>r e. (0, 0, 0)), getDefaultParent = (\<lambda>r. None),
     peerUserHashSelectParent = (\<lambda>r. None), peerSourceHashSelectParent = (\<lambda>r. None),
     carpSelectParent = (\<lambda>r. None), getRoundRobinParent = (\<lambda>r. None),
     getWeightedRoundRobinParent = (\<lambda>r. None), getFirstUpParent = (\<lambda>r. None),
     getAnyParent = (\<lambda>r. None), outgoingAddress = (\<lambda>r c. no_addr)\<rparr>"

definition ex_ps :: ps_state where
  "ex_ps = new_ps_state ex_request [] True 0"

text \<open>The round-trip time an ICP reply carries: the low 16 bits of \<^verbatim>\<open>pad\<close>.\<close>

definition icp_rtt :: "icp_common_t \<Rightarrow> int" where
  "icp_rtt header = uint (pad header AND 0xFFFF)"

text \<open>
  A context suspended in the ping wait, as \<^verbatim>\<open>peerGetSomeNeighbor\<close> leaves it: alive, its
  entry in \<open>PING_WAITING\<close>, \<open>direct\<close> decided and not \<open>DIRECT_YES\<close>.
\<close>

definition ping_waiting :: "ps_state \<Rightarrow> bool" where
  "ping_waiting ps =
     (\<not> freed ps \<and> callback ps
      \<and> (case entry ps of None \<Rightarrow> False | Some e \<Rightarrow> ping_status e = PING_WAITING)
      \<and> (direct ps = DIRECT_NO \<or> direct ps = DIRECT_MAYBE))"

text \<open>
  The parent MISS replies of a sequence \<open>rs\<close> (each a peer and its ICP header), as events,
  and the peer the specification names: the first whose reply has the least \<open>rtt\<close>.
\<close>

definition parent_miss_events :: "(int \<times> peer \<times> icp_common_t) list \<Rightarrow> (int \<times> event) list" where
  "parent_miss_events rs = map (\<lambda>(t, p, h). (t, PingReply p PEER_PARENT (Icp h))) rs"

definition min_rtt_peer :: "(int \<times> peer \<times> icp_common_t) list \<Rightarrow> peer option" where
  "min_rtt_peer rs =
     map_option (\<lambda>(t, p, h). p)
       (find (\<lambda>(t, p, h). icp_rtt h = Min (set (map (\<lambda>(t, p, h). icp_rtt h) rs))) rs)"

text \<open>The tags the \<^verbatim>\<open>switch\<close> of \<^verbatim>\<open>peerSelectFoo\<close> can append.\<close>

definition switch_codes :: "hier_code set" where
  "switch_codes = {HIER_DIRECT, DEFAULT_PARENT, USERHASH_PARENT, SOURCEHASH_PARENT, CARP,
     ROUNDROBIN_PARENT, FIRSTUP_PARENT, ANY_OLD_PARENT}"


text \<open>
  The record the reply aggregator appends for a context in the ping wait, by the order of
  section 4.4 of the specification: \<open>CLOSEST_DIRECT\<close> when the net-db direct check
  succeeds, else the peer of the recorded HIT, else that of the closest parent miss, else
  that of the first parent miss.
\<close>

definition aggregator_records :: "env \<Rightarrow> ps_state \<Rightarrow> FwdServer list" where
  "aggregator_records env ps =
     (if peerCheckNetdbDirect env ps then [(None, CLOSEST_DIRECT)]
      else case hit ps of
        Some h \<Rightarrow> [(Some h, if hit_type ps = PEER_PARENT then PARENT_HIT else SIBLING_HIT)]
      | None \<Rightarrow>
          if \<not> IsAnyAddr (closest_parent_miss ps) then
            (case whichPeer env (closest_parent_miss ps) of
               Some p \<Rightarrow> [(Some p, CLOSEST_PARENT_MISS)] | None \<Rightarrow> [])
          else if \<not> IsAnyAddr (first_parent_miss ps) then
            (case whichPeer env (first_parent_miss ps) of
               Some p \<Rightarrow> [(Some p, FIRST_PARENT_MISS)] | None \<Rightarrow> [])
          else [])"

text \<open>
  Whether a parent's ICP MISS replaces the closest parent recorded so far: it carries RTT
  data (with ICMP querying compiled in and enabled), its \<open>rtt\<close> is not 0, and no \<open>rtt\<close>
  is recorded yet or its own is smaller.
\<close>

definition closer_parent :: "env \<Rightarrow> icp_common_t \<Rightarrow> ps_state \<Rightarrow> bool" where
  "closer_parent env header ps =
     (USE_ICMP env \<and> query_icmp env \<and> (flags header AND ICP_FLAG_SRC_RTT env) \<noteq> 0
      \<and> icp_rtt header \<noteq> 0
      \<and> (p_rtt (ping ps) = 0 \<or> icp_rtt header < p_rtt (ping ps)))"

text \<open>
  A context in the ping wait with three replies expected, and an ICP MISS reply carrying
  the round-trip time \<open>rtt\<close>.
\<close>

definition ex_waiting :: ps_state where
  "ex_waiting = ex_ps\<lparr>entry := Some (ex_entry\<lparr>ping_status := PING_WAITING\<rparr>), callback := True,
     direct := DIRECT_MAYBE, ping := new_ping_data\<lparr>n_replies_expected := 3\<rparr>,
     event_queue := 1\<rparr>"

definition ex_miss :: "nat \<Rightarrow> icp_common_t" where
  "ex_miss rtt = \<lparr>opcode = ICP_MISS, flags = 0x40000000, pad = of_nat rtt\<rparr>"

text \<open>
  A selection: \<^verbatim>\<open>peerSelect\<close>, then the events the surrounding process delivers to the
  context, in their order.
\<close>

definition selection ::
  "env \<Rightarrow> connection list \<Rightarrow> request \<Rightarrow> store_entry option \<Rightarrow> bool \<Rightarrow> int
   \<Rightarrow> (int \<times> event) list \<Rightarrow> fault + ps_state" where
  "selection env pths req ent valid now evs =
     (case peerSelect env pths req ent valid now of
        Inl f \<Rightarrow> Inl f
      | Inr ps \<Rightarrow> run env evs ps)"

text \<open>
  A configuration with three neighbours to ping, each expected to reply; and one where,
  besides, ICMP querying is on, the net-db knows the origin at 40 ms, and parent 1 is
  known by its address.  An ICP HIT reply.
\<close>

definition ex_env_pings :: env where
  "ex_env_pings = ex_env\<lparr>neighborsCount := (\<lambda>r. 3), neighborsUdpPing := (\<lambda>r e. (3, 3, 2000))\<rparr>"

definition ex_env_netdb :: env where
  "ex_env_netdb = ex_env_pings\<lparr>USE_ICMP := True, query_icmp := True, minDirectRtt := 10,
     netdbHostRtt := (\<lambda>h. 40),
     whichPeer := (\<lambda>a. if addr_bits a = 1 then Some (ex_peer 1) else None)\<rparr>"

definition ex_hit :: icp_common_t where
  "ex_hit = \<lparr>opcode = ICP_HIT, flags = 0, pad = 0\<rparr>"

section \<open>The state of a selection between two callbacks\<close>









text \<open>
  A bound on the callbacks a context can still be served before it is released.  One pass
  of \<^verbatim>\<open>peerSelectFoo\<close> appends at most \<open>pass_servers\<close> records; a pass is entered on an ACL
  answer (at most once for each of the two lists, while \<open>direct\<close> is undecided), on the ping
  timer and on the reply that ends the ping wait; and each DNS result takes one record off
  \<open>servers\<close>.
\<close>

definition pass_servers :: "env \<Rightarrow> nat" where
  "pass_servers env = length (peers env) + 3"

definition acl_left :: "ps_state \<Rightarrow> nat" where
  "acl_left ps =
     (if direct ps = DIRECT_UNKNOWN
      then (if always_direct ps = 0 then 1 else 0) + (if never_direct ps = 0 then 1 else 0)
      else 0)"

definition ping_left :: "ps_state \<Rightarrow> nat" where
  "ping_left ps =
     event_queue ps
     + (case entry ps of
          None \<Rightarrow> 0
        | Some e \<Rightarrow> (case ping_status e of PING_NONE \<Rightarrow> 2 | PING_WAITING \<Rightarrow> 1 | PING_DONE \<Rightarrow> 0))"

definition work_left :: "env \<Rightarrow> ps_state \<Rightarrow> nat" where
  "work_left env ps =
     (if freed ps then 0
      else 1 + length (servers ps) + (pass_servers env + 1) * (acl_left ps + ping_left ps))"


text \<open>
  An HTCP MISS reply whose \<^verbatim>\<open>cto.rtt\<close> is positive and has the integer part \<open>r\<close>: with
  \<open>r = 0\<close> a round-trip time below 1, such as 0.5.
\<close>

definition ex_htcp_miss :: "int \<Rightarrow> htcpReplyData" where
  "ex_htcp_miss r = \<lparr>htcp_hit = False, cto_rtt_positive = True, cto_rtt_int = r, cto_hops_int = 0\<rparr>"

section \<open>Properties\<close>

subsection \<open>Frame lemmas\<close>

lemma peerAddFwdServer_fields [simp]:
  "servers (peerAddFwdServer p c ps) = servers ps @ [(p, c)]"
  "request (peerAddFwdServer p c ps) = request ps"
  "direct (peerAddFwdServer p c ps) = direct ps"
  "entry (peerAddFwdServer p c ps) = entry ps"
  "paths (peerAddFwdServer p c ps) = paths ps"
  "callback_calls (peerAddFwdServer p c ps) = callback_calls ps"
  "freed (peerAddFwdServer p c ps) = freed ps"
  by (simp_all add: peerAddFwdServer_def)

lemma first_non_null_strategies:
  "first_non_null (parent_strategies env) r =
     (case getDefaultParent env r of Some q \<Rightarrow> Some (q, DEFAULT_PARENT) | None \<Rightarrow>
     (case peerUserHashSelectParent env r of Some q \<Rightarrow> Some (q, USERHASH_PARENT) | None \<Rightarrow>
     (case peerSourceHashSelectParent env r of Some q \<Rightarrow> Some (q, SOURCEHASH_PARENT) | None \<Rightarrow>
     (case carpSelectParent env r of Some q \<Rightarrow> Some (q, CARP) | None \<Rightarrow>
     (case getRoundRobinParent env r of Some q \<Rightarrow> Some (q, ROUNDROBIN_PARENT) | None \<Rightarrow>
     (case getWeightedRoundRobinParent env r of Some q \<Rightarrow> Some (q, ROUNDROBIN_PARENT) | None \<Rightarrow>
     (case getFirstUpParent env r of Some q \<Rightarrow> Some (q, FIRSTUP_PARENT) | None \<Rightarrow>
     (case getAnyParent env r of Some q \<Rightarrow> Some (q, ANY_OLD_PARENT) | None \<Rightarrow> None))))))))"
  by (simp add: parent_strategies_def split: option.splits)

lemma peerGetSomeParent_eq:
  "peerGetSomeParent env ps =
     (if direct ps = DIRECT_YES then ps
      else case first_non_null (parent_strategies env) (request ps) of
             None \<Rightarrow> ps
           | Some (p, code) \<Rightarrow> peerAddFwdServer (Some p) code ps)"
  unfolding first_non_null_strategies
  by (simp add: peerGetSomeParent_def split: option.splits)

text \<open>
  C7.  The parent selector consults the eight strategies in the fixed priority order of
  the specification: unless \<open>direct\<close> is \<open>DIRECT_YES\<close>, the first strategy of the list that
  returns a peer gives the one record appended, with the tag the list pairs it with; no
  strategy returning a peer, or \<open>direct = DIRECT_YES\<close>, leaves the list as it is.  So at
  most one record is appended.
\<close>

theorem peerGetSomeParent_priority:
  "peerGetSomeParent env ps =
     (if direct ps = DIRECT_YES then ps
      else case first_non_null (parent_strategies env) (request ps) of
             None \<Rightarrow> ps
           | Some (p, code) \<Rightarrow> ps\<lparr>servers := servers ps @ [(Some p, code)]\<rparr>)
   \<and> length (servers (peerGetSomeParent env ps)) \<le> length (servers ps) + 1"
  by (simp add: peerGetSomeParent_eq peerAddFwdServer_def split: option.splits)

theorem peerGetSomeParent_priority_witness:
  "servers (peerGetSomeParent (ex_env\<lparr>carpSelectParent := (\<lambda>r. Some (ex_peer 1)),
        getFirstUpParent := (\<lambda>r. Some (ex_peer 2))\<rparr>) (ex_ps\<lparr>direct := DIRECT_MAYBE\<rparr>))
     = [(Some (ex_peer 1), CARP)]
   \<and> servers (peerGetSomeParent (ex_env\<lparr>carpSelectParent := (\<lambda>r. Some (ex_peer 1))\<rparr>)
        (ex_ps\<lparr>direct := DIRECT_YES\<rparr>)) = []"
  using peerGetSomeParent_priority
    [of "ex_env\<lparr>carpSelectParent := (\<lambda>r. Some (ex_peer 1)),
           getFirstUpParent := (\<lambda>r. Some (ex_peer 2))\<rparr>" "ex_ps\<lparr>direct := DIRECT_MAYBE\<rparr>"]
    peerGetSomeParent_priority
    [of "ex_env\<lparr>carpSelectParent := (\<lambda>r. Some (ex_peer 1))\<rparr>" "ex_ps\<lparr>direct := DIRECT_YES\<rparr>"]
  by (simp add: parent_strategies_def ex_env_def ex_ps_def new_ps_state_def)

subsection \<open>The all-parents fallback\<close>

lemma peerGetAllParents_loop_request [simp]:
  "request (peerGetAllParents_loop env ps0 ps) = request ps"
  by (induction ps0 arbitrary: ps) (simp_all add: peerAddFwdServer_def)

lemma peerGetAllParents_loop_servers:
  "servers (peerGetAllParents_loop env qs ps) =
     servers ps @ map (\<lambda>q. (Some q, ANY_OLD_PARENT))
       (filter (\<lambda>q. neighborType env q (request ps) = PEER_PARENT \<and> peerHTTPOkay env q (request ps)) qs)"
  by (induction qs arbitrary: ps) simp_all

lemma peerGetAllParents_servers:
  "servers (peerGetAllParents env ps) =
     servers ps @ map (\<lambda>q. (Some q, ANY_OLD_PARENT)) (alive_parents env (request ps))
       @ (case getDefaultParent env (request ps) of
            Some p \<Rightarrow> [(Some p, DEFAULT_PARENT)] | None \<Rightarrow> [])"
  by (simp add: peerGetAllParents_def Let_def peerGetAllParents_loop_servers alive_parents_def
      split: option.splits)

lemma peerGetSomeParent_request [simp]:
  "request (peerGetSomeParent env ps) = request ps"
  by (simp add: peerGetSomeParent_eq split: option.splits)

text \<open>
  C10.  On the \<open>DIRECT_NO\<close> branch of the switch, when \<open>getDefaultParent\<close> returns a peer
  for the request, the servers list receives two records tagged \<open>DEFAULT_PARENT\<close> for
  that peer: the first from the parent selector, the second from the all-parents
  fallback, after the records of the alive parents.
\<close>

theorem default_parent_appended_twice:
  assumes "direct ps = DIRECT_NO" and "getDefaultParent env (request ps) = Some p"
  shows "servers (peerSelectFoo_switch env ps) =
           servers ps @ [(Some p, DEFAULT_PARENT)]
             @ map (\<lambda>q. (Some q, ANY_OLD_PARENT)) (alive_parents env (request ps))
             @ [(Some p, DEFAULT_PARENT)]
         \<and> length (filter (\<lambda>fs. fs = (Some p, DEFAULT_PARENT)) (servers (peerSelectFoo_switch env ps)))
             = length (filter (\<lambda>fs. fs = (Some p, DEFAULT_PARENT)) (servers ps)) + 2"
proof -
  have sel: "peerGetSomeParent env ps = peerAddFwdServer (Some p) DEFAULT_PARENT ps"
    using assms by (simp add: peerGetSomeParent_def)
  have sw: "peerSelectFoo_switch env ps = peerGetAllParents env (peerGetSomeParent env ps)"
    using assms(1) by (simp add: peerSelectFoo_switch_def)
  have eq: "servers (peerSelectFoo_switch env ps) =
           servers ps @ [(Some p, DEFAULT_PARENT)]
             @ map (\<lambda>q. (Some q, ANY_OLD_PARENT)) (alive_parents env (request ps))
             @ [(Some p, DEFAULT_PARENT)]"
    unfolding sw peerGetAllParents_servers using assms(2) by (simp add: sel)
  have "filter (\<lambda>fs. fs = (Some p, DEFAULT_PARENT))
          (map (\<lambda>q. (Some q, ANY_OLD_PARENT)) (alive_parents env (request ps))) = []"
    by (simp add: filter_empty_conv)
  then show ?thesis unfolding eq by simp
qed

theorem default_parent_appended_twice_witness:
  "servers (peerSelectFoo_switch
      (ex_env\<lparr>getDefaultParent := (\<lambda>r. Some (ex_peer 1)), peers := [ex_peer 1, ex_peer 2]\<rparr>)
      (ex_ps\<lparr>direct := DIRECT_NO\<rparr>))
   = [(Some (ex_peer 1), DEFAULT_PARENT), (Some (ex_peer 1), ANY_OLD_PARENT),
      (Some (ex_peer 2), ANY_OLD_PARENT), (Some (ex_peer 1), DEFAULT_PARENT)]"
  using default_parent_appended_twice
    [of "ex_ps\<lparr>direct := DIRECT_NO\<rparr>"
        "ex_env\<lparr>getDefaultParent := (\<lambda>r. Some (ex_peer 1)), peers := [ex_peer 1, ex_peer 2]\<rparr>"
        "ex_peer 1"]
  by (simp add: ex_env_def ex_ps_def new_ps_state_def alive_parents_def)

subsection \<open>The ICP ping gate\<close>

text \<open>
  C6 as stated fails: for a privately keyed entry, with private-key exchange not
  allowed, \<open>direct = DIRECT_NO\<close> still lets the pings go out.
\<close>

theorem peerSelectIcpPing_private_key_counterexample:
  "peerSelectIcpPing (ex_env\<lparr>neighborsCount := (\<lambda>r. 3)\<rparr>) ex_request DIRECT_NO
      (Some (ex_entry\<lparr>KEY_PRIVATE := True\<rparr>)) = Inr 3
   \<and> ping_status (ex_entry\<lparr>KEY_PRIVATE := True\<rparr>) = PING_NONE
   \<and> KEY_PRIVATE (ex_entry\<lparr>KEY_PRIVATE := True\<rparr>)
   \<and> \<not> neighbors_do_private_keys (ex_env\<lparr>neighborsCount := (\<lambda>r. 3)\<rparr>)"
  by (simp add: peerSelectIcpPing_def ex_env_def ex_request_def ex_entry_def)

text \<open>
  C6, amended.  For an entry with \<open>ping_status = PING_NONE\<close> and \<open>direct \<noteq> DIRECT_YES\<close>,
  \<open>peerSelectIcpPing\<close> returns the neighbour count exactly when the request is
  hierarchical or \<open>direct = DIRECT_NO\<close>, and, for a privately keyed entry, private-key
  exchange is allowed or \<open>direct = DIRECT_NO\<close>; it returns 0 otherwise.  So a fan-out is
  initiated (a non-zero result, after which \<open>peerGetSomeNeighbor\<close> may leave the entry in
  \<open>PING_WAITING\<close>) only under these two conditions.
\<close>

theorem peerSelectIcpPing_gate:
  assumes "ping_status e = PING_NONE" and "dir \<noteq> DIRECT_YES"
  shows "peerSelectIcpPing env req dir (Some e) =
           Inr (if (hierarchical req \<or> dir = DIRECT_NO)
                   \<and> (KEY_PRIVATE e \<longrightarrow> neighbors_do_private_keys env \<or> dir = DIRECT_NO)
                then neighborsCount env req else 0)
         \<and> (\<forall>ps ps' e'. entry ps = Some e \<and> direct ps = dir \<and> request ps = req
               \<and> peerGetSomeNeighbor env ps = Inr ps' \<and> entry ps' = Some e'
               \<and> ping_status e' = PING_WAITING
               \<longrightarrow> (hierarchical req \<or> dir = DIRECT_NO)
                   \<and> (KEY_PRIVATE e \<longrightarrow> neighbors_do_private_keys env \<or> dir = DIRECT_NO))"
proof -
  have gate: "peerSelectIcpPing env req dir (Some e) =
           Inr (if (hierarchical req \<or> dir = DIRECT_NO)
                   \<and> (KEY_PRIVATE e \<longrightarrow> neighbors_do_private_keys env \<or> dir = DIRECT_NO)
                then neighborsCount env req else 0)"
    using assms by (simp add: peerSelectIcpPing_def)
  have "(hierarchical req \<or> dir = DIRECT_NO)
          \<and> (KEY_PRIVATE e \<longrightarrow> neighbors_do_private_keys env \<or> dir = DIRECT_NO)"
    if h: "entry ps = Some e" "direct ps = dir" "request ps = req"
      "peerGetSomeNeighbor env ps = Inr ps'" "entry ps' = Some e'" "ping_status e' = PING_WAITING"
    for ps ps' e'
  proof (rule ccontr)
    assume "\<not> ?thesis"
    then have zero: "peerSelectIcpPing env (request ps) (direct ps) (entry ps) = Inr 0"
      using gate h(1-3) by auto
    have "peerGetSomeNeighbor env ps = Inr ps' \<Longrightarrow> entry ps' = Some e'
            \<Longrightarrow> ping_status e' \<noteq> PING_WAITING"
      using h(1) assms zero
      by (auto simp: peerGetSomeNeighbor_def set_ping_status_def peerAddFwdServer_def
          split: option.splits if_splits)
    then show False using h by simp
  qed
  with gate show ?thesis by blast
qed

theorem peerSelectIcpPing_gate_witness:
  "peerSelectIcpPing (ex_env\<lparr>neighborsCount := (\<lambda>r. 3)\<rparr>) ex_request DIRECT_MAYBE
      (Some (ex_entry\<lparr>KEY_PRIVATE := True\<rparr>)) = Inr 0
   \<and> peerSelectIcpPing (ex_env\<lparr>neighborsCount := (\<lambda>r. 3)\<rparr>) ex_request DIRECT_MAYBE
      (Some ex_entry) = Inr 3"
  using peerSelectIcpPing_gate
    [of "ex_entry\<lparr>KEY_PRIVATE := True\<rparr>" DIRECT_MAYBE "ex_env\<lparr>neighborsCount := (\<lambda>r. 3)\<rparr>" ex_request]
    peerSelectIcpPing_gate
    [of ex_entry DIRECT_MAYBE "ex_env\<lparr>neighborsCount := (\<lambda>r. 3)\<rparr>" ex_request]
  by (simp add: ex_env_def ex_request_def ex_entry_def)

subsection \<open>The directness arbiter\<close>

lemma set_ping_status_fields [simp]:
  "direct (set_ping_status st ps) = direct ps"
  "servers (set_ping_status st ps) = servers ps"
  "request (set_ping_status st ps) = request ps"
  "paths (set_ping_status st ps) = paths ps"
  "callback_calls (set_ping_status st ps) = callback_calls ps"
  "freed (set_ping_status st ps) = freed ps"
  "entry (set_ping_status st ps) = map_option (\<lambda>e. e\<lparr>ping_status := st\<rparr>) (entry ps)"
  by (simp_all add: set_ping_status_def)

lemma entry_url_fields [simp]:
  "direct (entry_url env l ps) = direct ps"
  "servers (entry_url env l ps) = servers ps"
  "request (entry_url env l ps) = request ps"
  "paths (entry_url env l ps) = paths ps"
  "callback_calls (entry_url env l ps) = callback_calls ps"
  "freed (entry_url env l ps) = freed ps"
  "entry (entry_url env l ps) = entry ps"
  "callback (entry_url env l ps) = callback ps"
  "callback_data_valid (entry_url env l ps) = callback_data_valid ps"
  by (simp_all add: entry_url_def)

lemma peerSelectStateFree_direct [simp]:
  "direct (peerSelectStateFree ps) = direct ps"
  by (simp add: peerSelectStateFree_def Let_def split: option.splits)


lemma peerSelectPinned_direct [simp]:
  "direct (peerSelectPinned env ps) = direct ps"
  by (simp add: peerSelectPinned_def split: option.splits)



lemma peerGetSomeDirect_direct [simp]:
  "direct (peerGetSomeDirect ps) = direct ps"
  by (simp add: peerGetSomeDirect_def)

lemma peerGetSomeParent_direct [simp]:
  "direct (peerGetSomeParent env ps) = direct ps"
  by (simp add: peerGetSomeParent_eq split: option.splits)

lemma peerGetAllParents_loop_direct [simp]:
  "direct (peerGetAllParents_loop env qs ps) = direct ps"
  by (induction qs arbitrary: ps) simp_all

lemma peerGetAllParents_direct [simp]:
  "direct (peerGetAllParents env ps) = direct ps"
  by (simp add: peerGetAllParents_def Let_def split: option.splits)

lemma peerSelectFoo_switch_direct [simp]:
  "direct (peerSelectFoo_switch env ps) = direct ps"
  by (simp add: peerSelectFoo_switch_def Let_def split: direct_t.splits)






subsection \<open>The order of the addresses of one DNS result\<close>

lemma peerSelectDnsResults_loop_ip:
  "peerSelectDnsResults_loop env req fs ia n ip pths
     = peerSelectDnsResults_loop env req fs ia n ip' pths"
proof (induction "count ia - n" arbitrary: n ip ip' pths)
  case 0
  then show ?case by (simp add: peerSelectDnsResults_loop.simps [of _ _ _ _ n])
next
  case (Suc k)
  then have k: "k = count ia - (n + 1)" by simp
  show ?case
    unfolding peerSelectDnsResults_loop.simps [of env req fs ia n ip]
      peerSelectDnsResults_loop.simps [of env req fs ia n ip']
    using Suc(1) [OF k] by (simp add: Let_def)
qed

text \<open>
  C2 fails on the code.  The loop computes the rotated index \<open>ip\<close>, starting at
  \<open>ia.cur\<close> and wrapping to 0, but reads \<^verbatim>\<open>ia->in_addrs[n]\<close>: for a result with the two
  addresses 1 and 2 and \<open>cur = 1\<close> the paths are appended in the order 1, 2, not in the
  rotated order 2, 1 of the claim.
\<close>

theorem peerSelectDnsResults_not_rotated:
  "map (\<lambda>c. addr_bits (remote c))
     (peerSelectDnsResults_loop ex_env ex_request (None, HIER_DIRECT)
        \<lparr>in_addrs = [ex_addr 1, ex_addr 2], cur = 1\<rparr> 0 1 [])
   = [1, 2]
   \<and> map addr_bits (rotate 1 [ex_addr 1, ex_addr 2]) = [2, 1]"
  by (simp add: peerSelectDnsResults_loop.simps count_def unsigned_int_def ex_env_def
      ex_request_def ex_addr_def SetPort_def IsIPv4_def)

subsection \<open>Effects of the single functions\<close>

lemma peerSelectStateFree_fields [simp]:
  "freed (peerSelectStateFree ps)"
  "callback_calls (peerSelectStateFree ps) = callback_calls ps"
  "callback_data_valid (peerSelectStateFree ps) = callback_data_valid ps"
  "paths (peerSelectStateFree ps) = paths ps"
  "servers (peerSelectStateFree ps) = servers ps"
  "null_entry_url (peerSelectStateFree ps) = null_entry_url ps"
  "hit (peerSelectStateFree ps) = hit ps"
  "hit_type (peerSelectStateFree ps) = hit_type ps"
  "closest_parent_miss (peerSelectStateFree ps) = closest_parent_miss ps"
  "ping (peerSelectStateFree ps) = ping ps"
  "entry (peerSelectStateFree ps) = None"
  by (simp_all add: peerSelectStateFree_def Let_def split: option.splits)

lemma peerSelectDnsPaths_lookup:
  assumes "servers ps \<noteq> []" and "length (paths ps) < unsigned_int (forward_max_tries env)"
  shows "peerSelectDnsPaths env ps =
           Inr ((entry_url env 2 ps)\<lparr>dns_lookups := dns_lookups ps
              @ [case fst (hd (servers ps)) of Some p \<Rightarrow> peer_host p
                 | None \<Rightarrow> req_host (request ps)]\<rparr>)"
  using assms by (simp add: peerSelectDnsPaths_def Let_def entry_url_def)

lemma peerSelectDnsPaths_finish:
  assumes "servers ps = [] \<or> \<not> length (paths ps) < unsigned_int (forward_max_tries env)"
    and "peerSelectDnsPaths env ps = Inr ps'"
  shows "freed ps' \<and> paths ps' = paths ps \<and> servers ps' = servers ps
         \<and> callback_data_valid ps' = callback_data_valid ps
         \<and> callback_calls ps' = callback_calls ps @ (if callback_data_valid ps then [paths ps] else [])
         \<and> hit ps' = hit ps \<and> hit_type ps' = hit_type ps
         \<and> closest_parent_miss ps' = closest_parent_miss ps
         \<and> p_rtt (ping ps') = p_rtt (ping ps)
         \<and> entry ps' = None
         \<and> null_entry_url ps' = null_entry_url ps +
              (if entry ps = None
                  \<and> (if paths ps = [] then DBG_IMPORTANT env else 2) \<le> debug_level env
               then 1 else 0)"
  using assms
  by (auto simp: peerSelectDnsPaths_def Let_def entry_url_def split: if_splits)

lemma peerSelectDnsPaths_returns:
  assumes "callback ps"
  shows "\<exists>ps'. peerSelectDnsPaths env ps = Inr ps'"
  using assms by (simp add: peerSelectDnsPaths_def Let_def)

subsection \<open>The null entry in the DNS resolver stage\<close>

lemma peerSelectFoo_direct_cases:
  "(direct ps = DIRECT_UNKNOWN
     \<and> (always_direct ps = 0 \<and> acl_AlwaysDirect env
           \<and> peerSelectFoo_direct env ps = Returned (ps\<lparr>acl_checklist := Some AlwaysDirect\<rparr>)
         \<or> never_direct ps = 0 \<and> acl_NeverDirect env
           \<and> peerSelectFoo_direct env ps = Returned (ps\<lparr>acl_checklist := Some NeverDirect\<rparr>)))
   \<or> (\<exists>d. d \<noteq> DIRECT_UNKNOWN \<and> (direct ps \<noteq> DIRECT_UNKNOWN \<longrightarrow> d = direct ps)
          \<and> peerSelectFoo_direct env ps = Goes_on (ps\<lparr>direct := d\<rparr>))"
  by (cases "direct ps = DIRECT_UNKNOWN") (auto simp: peerSelectFoo_direct_def)

lemma peerSelectFoo_null_entry:
  assumes "entry ps = None" and "direct ps = DIRECT_UNKNOWN"
    and "\<not> acl_AlwaysDirect env" and "\<not> acl_NeverDirect env"
  shows "\<exists>ps1. entry ps1 = None \<and> callback ps1 = callback ps
           \<and> null_entry_url ps1 = null_entry_url ps
           \<and> peerSelectFoo env ps = peerSelectDnsPaths env ps1"
proof -
  obtain d where a0: "peerSelectFoo_direct env ps = Goes_on (ps\<lparr>direct := d\<rparr>)"
    using peerSelectFoo_direct_cases [of ps env] assms by auto
  define ps0 where "ps0 = ps\<lparr>direct := d\<rparr>"
  have a: "peerSelectFoo_direct env ps = Goes_on ps0" and e0: "entry ps0 = None"
    and c0: "callback ps0 = callback ps" and n0: "null_entry_url ps0 = null_entry_url ps"
    using a0 assms(1) by (simp_all add: ps0_def)
  have e1: "entry (peerSelectPinned env ps0) = None"
    using e0 by (simp add: peerSelectPinned_def peerAddFwdServer_def split: option.splits)
  have f1: "callback (peerSelectPinned env ps0) = callback ps0
            \<and> null_entry_url (peerSelectPinned env ps0) = null_entry_url ps0"
    by (simp add: peerSelectPinned_def peerAddFwdServer_def set_ping_status_def split: option.splits)
  have n: "peerSelectFoo_neighbors env ps0 = Inr (Goes_on (peerSelectPinned env ps0))"
    using e0 e1 by (simp add: peerSelectFoo_neighbors_def)
  define ps1 where "ps1 = peerSelectFoo_switch env (peerSelectPinned env ps0)"
  have sw: "entry ps1 = entry (peerSelectPinned env ps0)
            \<and> callback ps1 = callback (peerSelectPinned env ps0)
            \<and> null_entry_url ps1 = null_entry_url (peerSelectPinned env ps0)"
  proof -
    have loop: "\<And>qs x. entry (peerGetAllParents_loop env qs x) = entry x
        \<and> callback (peerGetAllParents_loop env qs x) = callback x
        \<and> null_entry_url (peerGetAllParents_loop env qs x) = null_entry_url x"
      subgoal for qs x
        by (induction qs arbitrary: x) (simp_all add: peerAddFwdServer_def)
      done
    show ?thesis
      unfolding ps1_def
      by (simp add: peerSelectFoo_switch_def peerGetSomeDirect_def peerGetSomeParent_eq
          peerGetAllParents_def peerAddFwdServer_def Let_def loop
          split: direct_t.splits option.splits)
  qed
  have "peerSelectFoo env ps = peerSelectDnsPaths env ps1"
    by (simp add: peerSelectFoo_def a n ps1_def)
  with sw e1 f1 c0 n0 show ?thesis by auto
qed

text \<open>
  C9.  With a null entry (the entry argument of \<^verbatim>\<open>peerSelect\<close> is optional) the DNS
  resolver stage evaluates \<^verbatim>\<open>entry->url()\<close> through the null handle.  With debug section
  44 at level 2 or more, and no ACL configured so that the stage is reached at once, the
  selection started by \<^verbatim>\<open>peerSelect\<close> has done so once when it returns; and every run of
  \<^verbatim>\<open>peerSelectDnsPaths\<close> on a context with a null entry does so once more, both when it
  issues the next lookup and when it reports completion.  Nothing checks \<open>entry\<close> first.
\<close>

theorem null_entry_url_in_dns_stage:
  assumes "2 \<le> debug_level env" and "DBG_IMPORTANT env \<le> debug_level env"
    and "\<not> acl_AlwaysDirect env" and "\<not> acl_NeverDirect env"
  shows "(\<exists>ps. peerSelect env pths req None valid now = Inr ps \<and> null_entry_url ps = 1)
         \<and> (\<forall>ps ps'. entry ps = None \<and> peerSelectDnsPaths env ps = Inr ps'
              \<longrightarrow> null_entry_url ps' = null_entry_url ps + 1)"
proof (intro conjI allI impI)
  have step: "null_entry_url ps' = null_entry_url ps + 1"
    if "entry ps = None" and "peerSelectDnsPaths env ps = Inr ps'" for ps ps'
  proof (cases "servers ps \<noteq> [] \<and> length (paths ps) < unsigned_int (forward_max_tries env)")
    case True
    then show ?thesis
      using that assms(1) peerSelectDnsPaths_lookup [of ps env] by (auto simp: entry_url_def)
  next
    case False
    then show ?thesis
      using that assms(1,2) peerSelectDnsPaths_finish [of ps env ps'] by auto
  qed
  {
    fix ps ps'
    assume "entry ps = None \<and> peerSelectDnsPaths env ps = Inr ps'"
    then show "null_entry_url ps' = null_entry_url ps + 1" using step by blast
  }
  define ps5 where "ps5 =
     (let ps0 = new_ps_state req pths valid now;
          ps1 = ps0\<lparr>request := (request ps0)\<lparr>msg_locks := msg_locks (request ps0) + 1\<rparr>\<rparr>;
          ps2 = ps1\<lparr>entry := None\<rparr>;
          ps3 = ps2\<lparr>callback := True\<rparr>;
          ps4 = (if USE_CACHE_DIGESTS env
                 then ps3\<lparr>request := (request ps3)\<lparr>peer_select_start := Some (current_time ps3)\<rparr>\<rparr>
                 else ps3)
      in ps4\<lparr>entry := map_option (\<lambda>e. e\<lparr>lock_count := lock_count e + 1\<rparr>) (entry ps4)\<rparr>)"
  have sel: "peerSelect env pths req None valid now = peerSelectFoo env ps5"
    by (simp add: peerSelect_def ps5_def Let_def)
  have f5: "entry ps5 = None" "direct ps5 = DIRECT_UNKNOWN" "callback ps5" "null_entry_url ps5 = 0"
    by (simp_all add: ps5_def new_ps_state_def Let_def)
  obtain ps1 where p1: "entry ps1 = None" "callback ps1" "null_entry_url ps1 = 0"
    "peerSelectFoo env ps5 = peerSelectDnsPaths env ps1"
    using peerSelectFoo_null_entry [OF f5(1,2) assms(3,4)] f5(3,4) by auto
  obtain ps' where r: "peerSelectDnsPaths env ps1 = Inr ps'"
    using peerSelectDnsPaths_returns [OF p1(2)] by blast
  have "null_entry_url ps' = 1" using step [OF p1(1) r] p1(3) by simp
  then show "\<exists>ps. peerSelect env pths req None valid now = Inr ps \<and> null_entry_url ps = 1"
    using sel p1(4) r by auto
qed

theorem null_entry_url_in_dns_stage_witness:
  "null_entry_url (case peerSelect (ex_env\<lparr>debug_level := 2\<rparr>) [] ex_request None True 0 of
       Inr ps \<Rightarrow> ps | Inl f \<Rightarrow> ex_ps) = 1
   \<and> dns_lookups (case peerSelect (ex_env\<lparr>debug_level := 2\<rparr>) [] ex_request None True 0 of
       Inr ps \<Rightarrow> ps | Inl f \<Rightarrow> ex_ps) = [''origin'']"
proof -
  have "\<exists>ps. peerSelect (ex_env\<lparr>debug_level := 2\<rparr>) [] ex_request None True 0 = Inr ps
          \<and> null_entry_url ps = 1"
    using null_entry_url_in_dns_stage [of "ex_env\<lparr>debug_level := 2\<rparr>" "[]" ex_request True 0]
    by (simp add: ex_env_def)
  moreover have "dns_lookups (case peerSelect (ex_env\<lparr>debug_level := 2\<rparr>) [] ex_request None True 0 of
       Inr ps \<Rightarrow> ps | Inl f \<Rightarrow> ex_ps) = [''origin'']"
    by (simp add: peerSelect_def peerSelectFoo_def peerSelectFoo_direct_def
        peerSelectFoo_neighbors_def peerSelectFoo_switch_def peerSelectPinned_def
        peerGetSomeDirect_def peerGetSomeParent_def peerAddFwdServer_def peerSelectDnsPaths_def
        peerCheckNetdbDirect_def entry_url_def unsigned_int_def
        new_ps_state_def ex_env_def ex_request_def Let_def)
  ultimately show ?thesis by auto
qed

subsection \<open>What one pass of the selection appends\<close>

lemma peerGetSomeDirect_summary:
  "\<exists>xs. peerGetSomeDirect ps = ps\<lparr>servers := servers ps @ xs\<rparr>
        \<and> (xs = [] \<or> xs = [(None, HIER_DIRECT)])"
proof (cases "direct ps = DIRECT_NO \<or> protocol (request ps) = PROTO_WAIS")
  case True
  then have "peerGetSomeDirect ps = ps\<lparr>servers := servers ps @ []\<rparr>"
    by (auto simp: peerGetSomeDirect_def)
  then show ?thesis by blast
next
  case False
  then have "peerGetSomeDirect ps = ps\<lparr>servers := servers ps @ [(None, HIER_DIRECT)]\<rparr>"
    by (auto simp: peerGetSomeDirect_def peerAddFwdServer_def)
  then show ?thesis by blast
qed

lemma peerGetSomeParent_summary:
  "\<exists>xs. peerGetSomeParent env ps = ps\<lparr>servers := servers ps @ xs\<rparr>
        \<and> length xs \<le> 1
        \<and> (\<forall>fs\<in>set xs. snd fs \<in> {DEFAULT_PARENT, USERHASH_PARENT, SOURCEHASH_PARENT, CARP,
               ROUNDROBIN_PARENT, FIRSTUP_PARENT, ANY_OLD_PARENT})"
proof (cases "direct ps = DIRECT_YES \<or> first_non_null (parent_strategies env) (request ps) = None")
  case True
  then have "peerGetSomeParent env ps = ps\<lparr>servers := servers ps @ []\<rparr>"
    by (auto simp: peerGetSomeParent_eq)
  then show ?thesis by (intro exI [of _ "[]"]) simp
next
  case False
  then obtain p c where pc: "first_non_null (parent_strategies env) (request ps) = Some (p, c)"
    by auto
  then have c: "c \<in> {DEFAULT_PARENT, USERHASH_PARENT, SOURCEHASH_PARENT, CARP,
               ROUNDROBIN_PARENT, FIRSTUP_PARENT, ANY_OLD_PARENT}"
    unfolding first_non_null_strategies by (auto split: option.splits)
  have "peerGetSomeParent env ps = ps\<lparr>servers := servers ps @ [(Some p, c)]\<rparr>"
    using False pc by (simp add: peerGetSomeParent_eq peerAddFwdServer_def)
  then show ?thesis using c by (intro exI [of _ "[(Some p, c)]"]) simp
qed
lemma maybe_branch_summary:
  "\<exists>xs. (let ps1 = (if prefer_direct env then peerGetSomeDirect ps else ps);
            ps2 = (if hierarchical (request ps1) \<or> \<not> nonhierarchical_direct env
                   then peerGetSomeParent env ps1 else ps1)
        in if \<not> prefer_direct env then peerGetSomeDirect ps2 else ps2)
          = ps\<lparr>servers := servers ps @ xs\<rparr>
        \<and> length xs \<le> length (peers env) + 2
        \<and> (\<forall>fs\<in>set xs. snd fs \<in> switch_codes)"
proof -
  define ps1 where "ps1 = (if prefer_direct env then peerGetSomeDirect ps else ps)"
  define ps2 where "ps2 = (if hierarchical (request ps1) \<or> \<not> nonhierarchical_direct env
                   then peerGetSomeParent env ps1 else ps1)"
  define ps3 where "ps3 = (if \<not> prefer_direct env then peerGetSomeDirect ps2 else ps2)"
  obtain xs where xs: "ps1 = ps\<lparr>servers := servers ps @ xs\<rparr>"
    "length xs \<le> (if prefer_direct env then 1 else 0)" "\<forall>fs\<in>set xs. snd fs \<in> switch_codes"
  proof (cases "prefer_direct env")
    case True
    then show ?thesis
      using peerGetSomeDirect_summary [of ps] that [of "[]"] that [of "[(None, HIER_DIRECT)]"]
      by (auto simp: ps1_def switch_codes_def)
  next
    case False
    then show ?thesis using that [of "[]"] by (simp add: ps1_def)
  qed
  obtain ys where ys: "ps2 = ps1\<lparr>servers := servers ps1 @ ys\<rparr>"
    "length ys \<le> 1" "\<forall>fs\<in>set ys. snd fs \<in> switch_codes"
  proof (cases "hierarchical (request ps1) \<or> \<not> nonhierarchical_direct env")
    case True
    then show ?thesis
      using peerGetSomeParent_summary [of env ps1] that
      by (auto simp: ps2_def switch_codes_def)
  next
    case False
    then show ?thesis using that [of "[]"] by (simp add: ps2_def)
  qed
  obtain zs where zs: "ps3 = ps2\<lparr>servers := servers ps2 @ zs\<rparr>"
    "length zs \<le> (if prefer_direct env then 0 else 1)" "\<forall>fs\<in>set zs. snd fs \<in> switch_codes"
  proof (cases "prefer_direct env")
    case False
    then show ?thesis
      using peerGetSomeDirect_summary [of ps2] that [of "[]"] that [of "[(None, HIER_DIRECT)]"]
      by (auto simp: ps3_def switch_codes_def)
  next
    case True
    then show ?thesis using that [of "[]"] by (simp add: ps3_def)
  qed
  have "ps3 = ps\<lparr>servers := servers ps @ (xs @ ys @ zs)\<rparr>"
    by (simp add: zs(1) ys(1) xs(1))
  moreover have "length (xs @ ys @ zs) \<le> length (peers env) + 2"
    using xs(2) ys(2) zs(2) by (simp split: if_splits)
  moreover have "\<forall>fs\<in>set (xs @ ys @ zs). snd fs \<in> switch_codes"
    using xs(3) ys(3) zs(3) by auto
  ultimately show ?thesis
    unfolding ps3_def ps2_def ps1_def Let_def by blast
qed
lemma peerGetAllParents_loop_summary:
  "peerGetAllParents_loop env qs ps =
     ps\<lparr>servers := servers ps @ map (\<lambda>q. (Some q, ANY_OLD_PARENT))
       (filter (\<lambda>q. neighborType env q (request ps) = PEER_PARENT \<and> peerHTTPOkay env q (request ps)) qs)\<rparr>"
  by (induction qs arbitrary: ps) (simp_all add: peerAddFwdServer_def)

lemma peerGetAllParents_summary:
  "\<exists>xs. peerGetAllParents env ps = ps\<lparr>servers := servers ps @ xs\<rparr>
        \<and> length xs \<le> length (peers env) + 1
        \<and> (\<forall>fs\<in>set xs. snd fs \<in> {DEFAULT_PARENT, ANY_OLD_PARENT})"
proof -
  let ?ys = "map (\<lambda>q. (Some q, ANY_OLD_PARENT)) (alive_parents env (request ps))"
  let ?zs = "case getDefaultParent env (request ps) of
               Some p \<Rightarrow> [(Some p, DEFAULT_PARENT)] | None \<Rightarrow> []"
  have "peerGetAllParents env ps = ps\<lparr>servers := servers ps @ (?ys @ ?zs)\<rparr>"
    by (simp add: peerGetAllParents_def peerGetAllParents_loop_summary peerAddFwdServer_def Let_def
        alive_parents_def split: option.splits)
  moreover have "length ?ys \<le> length (peers env)"
    by (simp add: alive_parents_def)
  then have "length (?ys @ ?zs) \<le> length (peers env) + 1"
    by (simp split: option.splits)
  moreover have "\<forall>fs\<in>set (?ys @ ?zs). snd fs \<in> {DEFAULT_PARENT, ANY_OLD_PARENT}"
    by (auto split: option.splits)
  ultimately show ?thesis by blast
qed

lemma peerSelectFoo_switch_summary:
  "\<exists>xs. peerSelectFoo_switch env ps = ps\<lparr>servers := servers ps @ xs\<rparr>
        \<and> length xs \<le> length (peers env) + 2
        \<and> (\<forall>fs\<in>set xs. snd fs \<in> switch_codes)"
proof -
  have direct_codes: "\<And>x xs. peerGetSomeDirect x = x\<lparr>servers := servers x @ xs\<rparr>
        \<and> (xs = [] \<or> xs = [(None, HIER_DIRECT)])
      \<Longrightarrow> length xs \<le> 1 \<and> (\<forall>fs\<in>set xs. snd fs \<in> switch_codes)"
    by (auto simp: switch_codes_def)
  show ?thesis
  proof (cases "direct ps")
    case DIRECT_YES
    obtain xs where xs: "peerGetSomeDirect ps = ps\<lparr>servers := servers ps @ xs\<rparr>"
      "length xs \<le> 1" "\<forall>fs\<in>set xs. snd fs \<in> switch_codes"
      using peerGetSomeDirect_summary [of ps] direct_codes by blast
    have "peerSelectFoo_switch env ps = ps\<lparr>servers := servers ps @ xs\<rparr>"
      using DIRECT_YES xs(1) by (simp add: peerSelectFoo_switch_def)
    then show ?thesis using xs(2,3) by (intro exI [of _ xs]) simp
  next
    case DIRECT_NO
    obtain xs where xs: "peerGetSomeParent env ps = ps\<lparr>servers := servers ps @ xs\<rparr>"
      "length xs \<le> 1" "\<forall>fs\<in>set xs. snd fs \<in> switch_codes"
      using peerGetSomeParent_summary [of env ps] by (auto simp: switch_codes_def)
    obtain ys where ys: "peerGetAllParents env (ps\<lparr>servers := servers ps @ xs\<rparr>)
         = ps\<lparr>servers := servers ps @ xs @ ys\<rparr>"
      "length ys \<le> length (peers env) + 1" "\<forall>fs\<in>set ys. snd fs \<in> switch_codes"
      using peerGetAllParents_summary [of env "ps\<lparr>servers := servers ps @ xs\<rparr>"]
      by (auto simp: switch_codes_def)
    have "peerSelectFoo_switch env ps = ps\<lparr>servers := servers ps @ (xs @ ys)\<rparr>"
      using DIRECT_NO xs(1) ys(1) by (simp add: peerSelectFoo_switch_def)
    moreover have "length (xs @ ys) \<le> length (peers env) + 2" using xs(2) ys(2) by simp
    moreover have "\<forall>fs\<in>set (xs @ ys). snd fs \<in> switch_codes" using xs(3) ys(3) by auto
    ultimately show ?thesis by blast
  next
    case DIRECT_UNKNOWN
    then have sw: "peerSelectFoo_switch env ps =
       (let ps1 = (if prefer_direct env then peerGetSomeDirect ps else ps);
            ps2 = (if hierarchical (request ps1) \<or> \<not> nonhierarchical_direct env
                   then peerGetSomeParent env ps1 else ps1)
        in if \<not> prefer_direct env then peerGetSomeDirect ps2 else ps2)"
      by (simp add: peerSelectFoo_switch_def)
    show ?thesis unfolding sw by (rule maybe_branch_summary)
  next
    case DIRECT_MAYBE
    then have sw: "peerSelectFoo_switch env ps =
       (let ps1 = (if prefer_direct env then peerGetSomeDirect ps else ps);
            ps2 = (if hierarchical (request ps1) \<or> \<not> nonhierarchical_direct env
                   then peerGetSomeParent env ps1 else ps1)
        in if \<not> prefer_direct env then peerGetSomeDirect ps2 else ps2)"
      by (simp add: peerSelectFoo_switch_def)
    show ?thesis unfolding sw by (rule maybe_branch_summary)
  qed
qed

lemma peerGetSomeNeighborReplies_waiting:
  assumes "entry ps = Some e" and "ping_status e = PING_WAITING" and "direct ps \<noteq> DIRECT_YES"
  shows "peerGetSomeNeighborReplies env ps
           = Inr (ps\<lparr>servers := servers ps @ aggregator_records env ps\<rparr>)"
  using assms
  by (simp add: peerGetSomeNeighborReplies_def aggregator_records_def peerAddFwdServer_def
      split: option.splits)



lemma peerSelectFoo_neighbors_waiting:
  assumes "entry ps = Some e" and "ping_status e = PING_WAITING" and "direct ps \<noteq> DIRECT_YES"
  shows "peerSelectFoo_neighbors env ps =
           Inr (Goes_on (ps\<lparr>servers := servers ps @ aggregator_records env ps,
                            entry := Some (e\<lparr>ping_status := PING_DONE\<rparr>)\<rparr>))"
  using assms
  by (simp add: peerSelectFoo_neighbors_def peerGetSomeNeighborReplies_waiting set_ping_status_def)


lemma peerSelectFoo_waiting:
  assumes "entry ps = Some e" and "ping_status e = PING_WAITING"
    and "direct ps = DIRECT_NO \<or> direct ps = DIRECT_MAYBE"
  shows "\<exists>xs. peerSelectFoo env ps =
            peerSelectDnsPaths env
              (ps\<lparr>servers := servers ps @ aggregator_records env ps @ xs,
                  entry := Some (e\<lparr>ping_status := PING_DONE\<rparr>)\<rparr>)
          \<and> length xs \<le> length (peers env) + 2
          \<and> (\<forall>fs\<in>set xs. snd fs \<in> switch_codes)"
proof -
  have a: "peerSelectFoo_direct env ps = Goes_on ps"
    using assms(3) by (auto simp: peerSelectFoo_direct_def)
  have d: "direct ps \<noteq> DIRECT_YES" using assms(3) by auto
  define ps2 where "ps2 = ps\<lparr>servers := servers ps @ aggregator_records env ps,
                            entry := Some (e\<lparr>ping_status := PING_DONE\<rparr>)\<rparr>"
  obtain ys where ys: "peerSelectFoo_switch env ps2 = ps2\<lparr>servers := servers ps2 @ ys\<rparr>"
    "length ys \<le> length (peers env) + 2" "\<forall>fs\<in>set ys. snd fs \<in> switch_codes"
    using peerSelectFoo_switch_summary [of env ps2] by blast
  have "ps2\<lparr>servers := servers ps2 @ ys\<rparr> =
          ps\<lparr>servers := servers ps @ aggregator_records env ps @ ys,
             entry := Some (e\<lparr>ping_status := PING_DONE\<rparr>)\<rparr>"
    by (cases ps) (simp add: ps2_def)
  then have "peerSelectFoo env ps =
            peerSelectDnsPaths env
              (ps\<lparr>servers := servers ps @ aggregator_records env ps @ ys,
                  entry := Some (e\<lparr>ping_status := PING_DONE\<rparr>)\<rparr>)"
    using a peerSelectFoo_neighbors_waiting [OF assms(1,2) d, of env] ys(1)
    by (simp add: peerSelectFoo_def ps2_def [symmetric])
  then show ?thesis using ys(2,3) by blast
qed

subsection \<open>The reply handlers\<close>

lemma peerIcpParentMiss_summary:
  assumes "weight p \<noteq> 0"
  shows "\<exists>fpm pg nu.
           peerIcpParentMiss env p header ps =
             Inr (ps\<lparr>closest_parent_miss :=
                       (if closer_parent env header ps then in_addr p else closest_parent_miss ps),
                    first_parent_miss := fpm, ping := pg, netdb_updates := nu\<rparr>)
           \<and> p_rtt pg = (if closer_parent env header ps then icp_rtt header else p_rtt (ping ps))
           \<and> n_recv pg = n_recv (ping ps)
           \<and> n_replies_expected pg = n_replies_expected (ping ps)"
proof -
  define hops where "hops = uint (drop_bit 16 (pad header) AND 0xFFFF)"
  define fl where "fl = (flags header AND ICP_FLAG_SRC_RTT env)"
  have m: "uint (pad header AND 0xFFFF) = icp_rtt header" by (simp only: icp_rtt_def)
  define psa where "psa = (if USE_ICMP env \<and> query_icmp env \<and> fl \<noteq> 0
        \<and> icp_rtt header > 0 \<and> icp_rtt header < 0xFFFF
      then ps\<lparr>netdb_updates := netdb_updates ps @ [(p, icp_rtt header, hops)]\<rparr> else ps)"
  define ps1 where "ps1 = (if closer_parent env header ps
      then psa\<lparr>closest_parent_miss := in_addr p, ping := (ping psa)\<lparr>p_rtt := icp_rtt header\<rparr>\<rparr>
      else psa)"
  have ps1: "ps1 = ps\<lparr>closest_parent_miss :=
                       (if closer_parent env header ps then in_addr p else closest_parent_miss ps),
                    first_parent_miss := first_parent_miss ps,
                    ping := (ping ps)\<lparr>p_rtt :=
                       (if closer_parent env header ps then icp_rtt header else p_rtt (ping ps))\<rparr>,
                    netdb_updates := netdb_updates psa\<rparr>"
    by (cases ps) (simp add: ps1_def psa_def)
  have cp: "closer_parent env header ps =
     (USE_ICMP env \<and> query_icmp env \<and> fl \<noteq> 0 \<and> icp_rtt header \<noteq> 0
      \<and> (p_rtt (ping ps) = 0 \<or> icp_rtt header < p_rtt (ping ps)))"
    by (simp only: closer_parent_def fl_def)
  have unfold: "peerIcpParentMiss env p header ps =
      (if closest_only p then Inr ps1
         else if \<not> IsAnyAddr (closest_parent_miss ps1) then Inr ps1
         else
           (let rtt0 = int32 (int32 (tvSubMsec (start (ping ps1)) (current_time ps1) - basetime p) sdiv weight p);
                rtt = (if rtt0 < 1 then 1 else rtt0)
            in if IsAnyAddr (first_parent_miss ps1) \<or> rtt < w_rtt (ping ps1)
               then Inr (ps1\<lparr>first_parent_miss := in_addr p, ping := (ping ps1)\<lparr>w_rtt := rtt\<rparr>\<rparr>)
               else Inr ps1))"
  proof -
    have E: "(if USE_ICMP env \<and> query_icmp env \<and> fl \<noteq> 0 then
           (let rtt = icp_rtt header;
                hops = hops;
                psa = (if rtt > 0 \<and> rtt < 0xFFFF
                       then ps\<lparr>netdb_updates := netdb_updates ps @ [(p, rtt, hops)]\<rparr> else ps)
            in if rtt \<noteq> 0 \<and> (p_rtt (ping psa) = 0 \<or> rtt < p_rtt (ping psa))
               then psa\<lparr>closest_parent_miss := in_addr p, ping := (ping psa)\<lparr>p_rtt := rtt\<rparr>\<rparr>
               else psa)
         else ps) = ps1"
      by (simp add: ps1_def psa_def cp Let_def)
    show ?thesis
      unfolding peerIcpParentMiss_def m hops_def [symmetric] fl_def [symmetric] E
      using assms by (simp only: Let_def if_False)
  qed
  let ?cl = "if closer_parent env header ps then in_addr p else closest_parent_miss ps"
  let ?pr = "if closer_parent env header ps then icp_rtt header else p_rtt (ping ps)"
  have "peerIcpParentMiss env p header ps = Inr ps1
        \<or> (\<exists>r. peerIcpParentMiss env p header ps =
               Inr (ps1\<lparr>first_parent_miss := in_addr p, ping := (ping ps1)\<lparr>w_rtt := r\<rparr>\<rparr>))"
    unfolding unfold Let_def by (cases "closest_only p") auto
  then show ?thesis
  proof
    assume "peerIcpParentMiss env p header ps = Inr ps1"
    then show ?thesis
      unfolding ps1
      by (intro exI [of _ "first_parent_miss ps"] exI [of _ "(ping ps)\<lparr>p_rtt := ?pr\<rparr>"]
          exI [of _ "netdb_updates psa"]) simp
  next
    assume "\<exists>r. peerIcpParentMiss env p header ps =
               Inr (ps1\<lparr>first_parent_miss := in_addr p, ping := (ping ps1)\<lparr>w_rtt := r\<rparr>\<rparr>)"
    then obtain r where r: "peerIcpParentMiss env p header ps =
               Inr (ps1\<lparr>first_parent_miss := in_addr p, ping := (ping ps1)\<lparr>w_rtt := r\<rparr>\<rparr>)"
      by blast
    have "ps1\<lparr>first_parent_miss := in_addr p, ping := (ping ps1)\<lparr>w_rtt := r\<rparr>\<rparr> =
          ps\<lparr>closest_parent_miss := ?cl, first_parent_miss := in_addr p,
             ping := (ping ps)\<lparr>p_rtt := ?pr, w_rtt := r\<rparr>, netdb_updates := netdb_updates psa\<rparr>"
      unfolding ps1 by (cases ps) simp
    with r show ?thesis
      by (intro exI [of _ "in_addr p"] exI [of _ "(ping ps)\<lparr>p_rtt := ?pr, w_rtt := r\<rparr>"]
          exI [of _ "netdb_updates psa"]) simp
  qed
qed
lemma entry_url_null:
  "entry_url env l ps = ps\<lparr>null_entry_url := null_entry_url (entry_url env l ps)\<rparr>
   \<and> (entry ps \<noteq> None \<longrightarrow> null_entry_url (entry_url env l ps) = null_entry_url ps)"
  by (simp add: entry_url_def)

lemma closer_parent_cong:
  "p_rtt (ping ps') = p_rtt (ping ps) \<Longrightarrow> closer_parent env header ps' = closer_parent env header ps"
  by (simp add: closer_parent_def)

lemma peerHandleIcpReply_cases:
  assumes "weight p \<noteq> 0"
  shows "\<exists>cl fpm pg nu n.
           n_recv pg = n_recv (ping ps) + 1
           \<and> n_replies_expected pg = n_replies_expected (ping ps)
           \<and> (entry ps \<noteq> None \<longrightarrow> n = null_entry_url ps)
           \<and> (if type = PEER_PARENT \<and> (opcode header = ICP_MISS \<or> opcode header = ICP_DECHO)
               then cl = (if closer_parent env header ps then in_addr p else closest_parent_miss ps)
                  \<and> p_rtt pg = (if closer_parent env header ps then icp_rtt header else p_rtt (ping ps))
               else cl = closest_parent_miss ps \<and> p_rtt pg = p_rtt (ping ps))
           \<and> peerHandleIcpReply env p type header ps =
               (if opcode header = ICP_HIT then
                  peerSelectFoo env
                    (ps\<lparr>closest_parent_miss := cl, first_parent_miss := fpm, ping := pg,
                        netdb_updates := nu, null_entry_url := n, hit := Some p, hit_type := type\<rparr>)
                else if n_recv pg < n_replies_expected pg then
                  Inr (ps\<lparr>closest_parent_miss := cl, first_parent_miss := fpm, ping := pg,
                         netdb_updates := nu, null_entry_url := n\<rparr>)
                else
                  peerSelectFoo env
                    (ps\<lparr>closest_parent_miss := cl, first_parent_miss := fpm, ping := pg,
                        netdb_updates := nu, null_entry_url := n\<rparr>))"
proof -
  define n where "n = null_entry_url (entry_url env 3 ps)"
  define pg2 where "pg2 = (ping ps)\<lparr>n_recv := n_recv (ping ps) + 1\<rparr>"
  define ps2 where "ps2 = ps\<lparr>ping := pg2, null_entry_url := n\<rparr>"
  have n: "entry ps \<noteq> None \<longrightarrow> n = null_entry_url ps"
    using entry_url_null [of env 3 ps] by (simp add: n_def)
  have ps2: "(entry_url env 3 ps)\<lparr>ping := (ping (entry_url env 3 ps))
               \<lparr>n_recv := n_recv (ping (entry_url env 3 ps)) + 1\<rparr>\<rparr> = ps2"
    by (cases ps) (simp add: ps2_def pg2_def n_def entry_url_def)
  have unfold: "peerHandleIcpReply env p type header ps =
     (if opcode header = ICP_MISS \<or> opcode header = ICP_DECHO then
           (case (if type = PEER_PARENT then peerIcpParentMiss env p header ps2 else Inr ps2) of
              Inl f \<Rightarrow> Inl f
            | Inr ps3 \<Rightarrow>
                if n_recv (ping ps3) < n_replies_expected (ping ps3) then Inr ps3
                else peerSelectFoo env ps3)
         else if opcode header = ICP_HIT then peerSelectFoo env (ps2\<lparr>hit := Some p, hit_type := type\<rparr>)
         else if n_recv (ping ps2) < n_replies_expected (ping ps2) then Inr ps2
         else peerSelectFoo env ps2)"
    unfolding peerHandleIcpReply_def Let_def ps2 by (rule refl)
  have ps2_eq: "ps2 = ps\<lparr>closest_parent_miss := closest_parent_miss ps,
        first_parent_miss := first_parent_miss ps, ping := pg2,
        netdb_updates := netdb_updates ps, null_entry_url := n\<rparr>"
    by (cases ps) (simp add: ps2_def)
  show ?thesis
  proof (cases "type = PEER_PARENT \<and> (opcode header = ICP_MISS \<or> opcode header = ICP_DECHO)")
    case False
    have "peerHandleIcpReply env p type header ps =
               (if opcode header = ICP_HIT then peerSelectFoo env (ps2\<lparr>hit := Some p, hit_type := type\<rparr>)
                else if n_recv pg2 < n_replies_expected pg2 then Inr ps2
                else peerSelectFoo env ps2)"
      unfolding unfold using False by (auto simp: ps2_def)
    then have "peerHandleIcpReply env p type header ps =
               (if opcode header = ICP_HIT then
                  peerSelectFoo env
                    (ps\<lparr>closest_parent_miss := closest_parent_miss ps,
                        first_parent_miss := first_parent_miss ps, ping := pg2,
                        netdb_updates := netdb_updates ps, null_entry_url := n,
                        hit := Some p, hit_type := type\<rparr>)
                else if n_recv pg2 < n_replies_expected pg2 then
                  Inr (ps\<lparr>closest_parent_miss := closest_parent_miss ps,
                        first_parent_miss := first_parent_miss ps, ping := pg2,
                        netdb_updates := netdb_updates ps, null_entry_url := n\<rparr>)
                else
                  peerSelectFoo env
                    (ps\<lparr>closest_parent_miss := closest_parent_miss ps,
                        first_parent_miss := first_parent_miss ps, ping := pg2,
                        netdb_updates := netdb_updates ps, null_entry_url := n\<rparr>))"
      unfolding ps2_eq by simp
    moreover have "n_recv pg2 = n_recv (ping ps) + 1"
      "n_replies_expected pg2 = n_replies_expected (ping ps)" "p_rtt pg2 = p_rtt (ping ps)"
      by (simp_all add: pg2_def)
    ultimately show ?thesis
      apply (rule_tac x = "closest_parent_miss ps" in exI)
      apply (rule_tac x = "first_parent_miss ps" in exI)
      apply (rule_tac x = pg2 in exI)
      apply (rule_tac x = "netdb_updates ps" in exI)
      apply (rule_tac x = n in exI)
      using False n by auto
  next
    case True
    have cp: "closer_parent env header ps2 = closer_parent env header ps"
      by (rule closer_parent_cong) (simp add: ps2_def pg2_def)
    obtain fpm pg nu where pm:
      "peerIcpParentMiss env p header ps2 =
             Inr (ps2\<lparr>closest_parent_miss :=
                       (if closer_parent env header ps then in_addr p else closest_parent_miss ps2),
                    first_parent_miss := fpm, ping := pg, netdb_updates := nu\<rparr>)"
      "p_rtt pg = (if closer_parent env header ps then icp_rtt header else p_rtt (ping ps2))"
      "n_recv pg = n_recv (ping ps2)"
      "n_replies_expected pg = n_replies_expected (ping ps2)"
      using peerIcpParentMiss_summary [OF assms, of env header ps2] unfolding cp by blast
    let ?cl = "if closer_parent env header ps then in_addr p else closest_parent_miss ps"
    have eq: "ps2\<lparr>closest_parent_miss :=
                       (if closer_parent env header ps then in_addr p else closest_parent_miss ps2),
                    first_parent_miss := fpm, ping := pg, netdb_updates := nu\<rparr>
          = ps\<lparr>closest_parent_miss := ?cl, first_parent_miss := fpm, ping := pg,
                         netdb_updates := nu, null_entry_url := n\<rparr>"
      by (cases ps) (simp add: ps2_def)
    have nothit: "opcode header \<noteq> ICP_HIT" using True by auto
    have "peerHandleIcpReply env p type header ps =
            (if n_recv pg < n_replies_expected pg then
                  Inr (ps\<lparr>closest_parent_miss := ?cl, first_parent_miss := fpm, ping := pg,
                         netdb_updates := nu, null_entry_url := n\<rparr>)
                else
                  peerSelectFoo env
                    (ps\<lparr>closest_parent_miss := ?cl, first_parent_miss := fpm, ping := pg,
                        netdb_updates := nu, null_entry_url := n\<rparr>))"
      unfolding unfold using True pm(1) unfolding eq by auto
    moreover have "n_recv pg = n_recv (ping ps) + 1"
      "n_replies_expected pg = n_replies_expected (ping ps)"
      "p_rtt pg = (if closer_parent env header ps then icp_rtt header else p_rtt (ping ps))"
      using pm(2,3,4) by (simp_all add: ps2_def pg2_def)
    ultimately show ?thesis
      apply (rule_tac x = ?cl in exI)
      apply (rule_tac x = fpm in exI)
      apply (rule_tac x = pg in exI)
      apply (rule_tac x = nu in exI)
      apply (rule_tac x = n in exI)
      using True n nothit by auto
  qed
qed



subsection \<open>Replies during the ping wait\<close>

lemma run_append:
  "run env (xs @ ys) ps =
     (case run env xs ps of Inl f \<Rightarrow> Inl f | Inr ps1 \<Rightarrow> run env ys ps1)"
  by (induction xs arbitrary: ps) (simp_all split: sum.splits)

lemma deliver_reply_waiting:
  assumes "ping_waiting ps"
  shows "deliver env (t, PingReply p type pd) ps
           = peerHandlePingReply env p type pd (ps\<lparr>current_time := t\<rparr>)"
  using assms
  by (auto simp: deliver_def deliverable_def handle_def ping_waiting_def split: option.splits)

lemma ping_waiting_update:
  assumes "ping_waiting ps"
  shows "ping_waiting (ps\<lparr>current_time := t, closest_parent_miss := cl, first_parent_miss := fpm,
           ping := pg, netdb_updates := nu, null_entry_url := n\<rparr>)"
  using assms by (simp add: ping_waiting_def)

lemma peerSelectFoo_waiting_returns:
  assumes "ping_waiting ps"
  shows "\<exists>ps'. peerSelectFoo env ps = Inr ps'
           \<and> closest_parent_miss ps' = closest_parent_miss ps
           \<and> p_rtt (ping ps') = p_rtt (ping ps)
           \<and> hit ps' = hit ps \<and> hit_type ps' = hit_type ps"
proof -
  obtain e where e: "entry ps = Some e" "ping_status e = PING_WAITING"
    and d: "direct ps = DIRECT_NO \<or> direct ps = DIRECT_MAYBE" and cb: "callback ps"
    using assms by (auto simp: ping_waiting_def split: option.splits)
  obtain xs where xs: "peerSelectFoo env ps =
            peerSelectDnsPaths env
              (ps\<lparr>servers := servers ps @ aggregator_records env ps @ xs,
                  entry := Some (e\<lparr>ping_status := PING_DONE\<rparr>)\<rparr>)"
    using peerSelectFoo_waiting [OF e d, of env] by blast
  define ps1 where "ps1 = ps\<lparr>servers := servers ps @ aggregator_records env ps @ xs,
                  entry := Some (e\<lparr>ping_status := PING_DONE\<rparr>)\<rparr>"
  have cb1: "callback ps1" using cb by (simp add: ps1_def)
  obtain ps' where r: "peerSelectDnsPaths env ps1 = Inr ps'"
    using peerSelectDnsPaths_returns [OF cb1] by blast
  have "closest_parent_miss ps' = closest_parent_miss ps1 \<and> p_rtt (ping ps') = p_rtt (ping ps1)
        \<and> hit ps' = hit ps1 \<and> hit_type ps' = hit_type ps1"
  proof (cases "servers ps1 \<noteq> [] \<and> length (paths ps1) < unsigned_int (forward_max_tries env)")
    case True
    then show ?thesis
      using r peerSelectDnsPaths_lookup [of ps1 env] by (auto simp: entry_url_def)
  next
    case False
    then show ?thesis using peerSelectDnsPaths_finish [OF _ r] by auto
  qed
  then show ?thesis using xs r by (simp add: ps1_def)
qed

lemma parent_miss_step:
  assumes W: "ping_waiting ps"
    and h: "opcode header = ICP_MISS" and w: "weight p \<noteq> 0"
  shows "\<exists>ps'. deliver env (t, PingReply p PEER_PARENT (Icp header)) ps = Inr ps'
           \<and> closest_parent_miss ps' =
                (if closer_parent env header ps then in_addr p else closest_parent_miss ps)
           \<and> p_rtt (ping ps') =
                (if closer_parent env header ps then icp_rtt header else p_rtt (ping ps))
           \<and> (n_recv (ping ps) + 1 < n_replies_expected (ping ps)
                \<longrightarrow> ping_waiting ps' \<and> n_recv (ping ps') = n_recv (ping ps) + 1
                    \<and> n_replies_expected (ping ps') = n_replies_expected (ping ps))"
proof -
  define pst where "pst = ps\<lparr>current_time := t\<rparr>"
  have cpt: "closer_parent env header pst = closer_parent env header ps"
    by (rule closer_parent_cong) (simp add: pst_def)
  obtain cl fpm pg nu n where c:
    "n_recv pg = n_recv (ping pst) + 1"
    "n_replies_expected pg = n_replies_expected (ping pst)"
    "cl = (if closer_parent env header ps then in_addr p else closest_parent_miss pst)"
    "p_rtt pg = (if closer_parent env header ps then icp_rtt header else p_rtt (ping pst))"
    "peerHandleIcpReply env p PEER_PARENT header pst =
       (if n_recv pg < n_replies_expected pg then
          Inr (pst\<lparr>closest_parent_miss := cl, first_parent_miss := fpm, ping := pg,
                 netdb_updates := nu, null_entry_url := n\<rparr>)
        else
          peerSelectFoo env
            (pst\<lparr>closest_parent_miss := cl, first_parent_miss := fpm, ping := pg,
                netdb_updates := nu, null_entry_url := n\<rparr>))"
    using peerHandleIcpReply_cases [OF w, where ps = pst and type = PEER_PARENT
        and header = header and env = env] h
    unfolding cpt by auto
  define ps1 where "ps1 = pst\<lparr>closest_parent_miss := cl, first_parent_miss := fpm, ping := pg,
                 netdb_updates := nu, null_entry_url := n\<rparr>"
  have W1: "ping_waiting ps1"
    unfolding ps1_def pst_def using ping_waiting_update [OF W] by simp
  have d: "deliver env (t, PingReply p PEER_PARENT (Icp header)) ps =
       (if n_recv pg < n_replies_expected pg then Inr ps1 else peerSelectFoo env ps1)"
    using deliver_reply_waiting [OF W, of env t p PEER_PARENT "Icp header"] c(5)
    by (simp add: peerHandlePingReply_def pst_def ps1_def)
  have f1: "closest_parent_miss ps1 =
                (if closer_parent env header ps then in_addr p else closest_parent_miss ps)"
    "p_rtt (ping ps1) = (if closer_parent env header ps then icp_rtt header else p_rtt (ping ps))"
    "n_recv (ping ps1) = n_recv (ping ps) + 1"
    "n_replies_expected (ping ps1) = n_replies_expected (ping ps)"
    using c(1-4) by (simp_all add: ps1_def pst_def)
  show ?thesis
  proof (cases "n_recv pg < n_replies_expected pg")
    case True
    then show ?thesis using d f1 W1 by simp
  next
    case False
    then have nq: "\<not> n_recv (ping ps) + 1 < n_replies_expected (ping ps)"
      using c(1,2) by (simp add: pst_def)
    obtain ps' where "peerSelectFoo env ps1 = Inr ps'"
      "closest_parent_miss ps' = closest_parent_miss ps1" "p_rtt (ping ps') = p_rtt (ping ps1)"
      using peerSelectFoo_waiting_returns [OF W1, of env] by blast
    then show ?thesis using d False f1 nq by simp
  qed
qed
lemma find_snoc:
  "find P (xs @ [x]) = (case find P xs of None \<Rightarrow> (if P x then Some x else None) | Some y \<Rightarrow> Some y)"
  by (induction xs) simp_all

lemma find_None_iff_all: "find P xs = None \<longleftrightarrow> (\<forall>x\<in>set xs. \<not> P x)"
  by (induction xs) simp_all

lemma min_rtt_peer_single:
  "min_rtt_peer [(t, p, h)] = Some p"
  by (simp add: min_rtt_peer_def)

lemma min_rtt_peer_snoc:
  assumes "rs \<noteq> []"
  shows "Min (set (map (\<lambda>(t, p, h). icp_rtt h) (rs @ [(t, p, h)])))
           = min (Min (set (map (\<lambda>(t, p, h). icp_rtt h) rs))) (icp_rtt h)
         \<and> min_rtt_peer (rs @ [(t, p, h)])
           = (if icp_rtt h < Min (set (map (\<lambda>(t, p, h). icp_rtt h) rs)) then Some p
              else min_rtt_peer rs)"
proof -
  let ?f = "\<lambda>(t, p, h). icp_rtt h"
  let ?m = "Min (set (map ?f rs))"
  have ne: "set (map ?f rs) \<noteq> {}" using assms by simp
  have m: "Min (set (map ?f (rs @ [(t, p, h)]))) = min ?m (icp_rtt h)"
    using Min_insert [of "set (map ?f rs)" "icp_rtt h"] ne by (simp add: min.commute)
  have lower: "\<forall>r\<in>set rs. ?m \<le> ?f r"
    by (auto intro!: Min_le)
  have "?m \<in> set (map ?f rs)"
    using ne by (intro Min_in) simp_all
  then have "?m \<in> ?f ` set rs" by simp
  then have ex: "\<exists>r\<in>set rs. ?f r = ?m"
    by (metis (no_types, lifting) imageE)
  show ?thesis
  proof (cases "icp_rtt h < ?m")
    case True
    then have mm: "min ?m (icp_rtt h) = icp_rtt h" by simp
    have "find (\<lambda>(t, p, ha). icp_rtt ha = icp_rtt h) rs = None"
      unfolding find_None_iff_all using lower True by fastforce
    then have "min_rtt_peer (rs @ [(t, p, h)]) = Some p"
      unfolding min_rtt_peer_def m mm
      by (simp add: find_snoc)
    then show ?thesis using m True by simp
  next
    case False
    then have mm: "min ?m (icp_rtt h) = ?m" by simp
    have "find (\<lambda>(t, p, ha). icp_rtt ha = ?m) rs \<noteq> None"
      unfolding find_None_iff_all using ex by fastforce
    then obtain y where y: "find (\<lambda>(t, p, ha). icp_rtt ha = ?m) rs = Some y"
      by blast
    have "min_rtt_peer (rs @ [(t, p, h)]) = min_rtt_peer rs"
      unfolding min_rtt_peer_def m mm
      using y by (simp add: find_snoc)
    then show ?thesis using m False by simp
  qed
qed

lemma min_rtt_positive:
  assumes "rs \<noteq> []" and "\<forall>(t, p, h)\<in>set rs. 0 < icp_rtt h"
  shows "0 < Min (set (map (\<lambda>(t, p, h). icp_rtt h) rs))"
proof -
  have "Min (set (map (\<lambda>(t, p, h). icp_rtt h) rs)) \<in> set (map (\<lambda>(t, p, h). icp_rtt h) rs)"
    using assms(1) by (intro Min_in) simp_all
  then show ?thesis using assms(2) by auto
qed

lemma parent_miss_run:
  assumes icmp: "USE_ICMP env" "query_icmp env"
  shows "rs \<noteq> [] \<Longrightarrow> ping_waiting ps \<Longrightarrow> p_rtt (ping ps) = 0
     \<Longrightarrow> \<forall>(t, p, h)\<in>set rs. opcode h = ICP_MISS \<and> (flags h AND ICP_FLAG_SRC_RTT env) \<noteq> 0
            \<and> 0 < icp_rtt h \<and> weight p \<noteq> 0
     \<Longrightarrow> n_recv (ping ps) + int (length rs) \<le> n_replies_expected (ping ps)
     \<Longrightarrow> \<exists>ps'. run env (parent_miss_events rs) ps = Inr ps'
           \<and> Some (closest_parent_miss ps') = map_option in_addr (min_rtt_peer rs)
           \<and> p_rtt (ping ps') = Min (set (map (\<lambda>(t, p, h). icp_rtt h) rs))
           \<and> (n_recv (ping ps) + int (length rs) < n_replies_expected (ping ps)
                \<longrightarrow> ping_waiting ps' \<and> n_recv (ping ps') = n_recv (ping ps) + int (length rs)
                    \<and> n_replies_expected (ping ps') = n_replies_expected (ping ps))"
proof (induction rs rule: rev_induct)
  case Nil
  then show ?case by simp
next
  case (snoc x rs)
  obtain t p h where x: "x = (t, p, h)" by (cases x) auto
  have hx: "opcode h = ICP_MISS" "(flags h AND ICP_FLAG_SRC_RTT env) \<noteq> 0" "0 < icp_rtt h"
    "weight p \<noteq> 0"
    using snoc.prems(4) x by auto
  have ev: "parent_miss_events (rs @ [x]) =
      parent_miss_events rs @ [(t, PingReply p PEER_PARENT (Icp h))]"
    by (simp add: parent_miss_events_def x)
  show ?case
  proof (cases "rs = []")
    case True
    have cp: "closer_parent env h ps"
      using icmp hx snoc.prems(3) by (simp add: closer_parent_def)
    obtain ps' where s: "deliver env (t, PingReply p PEER_PARENT (Icp h)) ps = Inr ps'"
      "closest_parent_miss ps' = in_addr p" "p_rtt (ping ps') = icp_rtt h"
      "n_recv (ping ps) + 1 < n_replies_expected (ping ps)
         \<longrightarrow> ping_waiting ps' \<and> n_recv (ping ps') = n_recv (ping ps) + 1
             \<and> n_replies_expected (ping ps') = n_replies_expected (ping ps)"
      using parent_miss_step [OF snoc.prems(2) hx(1,4), of env t] cp by auto
    show ?thesis
      using True s by (simp add: ev x parent_miss_events_def min_rtt_peer_single)
  next
    case False
    have strict: "n_recv (ping ps) + int (length rs) < n_replies_expected (ping ps)"
      using snoc.prems(5) by simp
    obtain ps1 where ih: "run env (parent_miss_events rs) ps = Inr ps1"
      "Some (closest_parent_miss ps1) = map_option in_addr (min_rtt_peer rs)"
      "p_rtt (ping ps1) = Min (set (map (\<lambda>(t, p, h). icp_rtt h) rs))"
      "ping_waiting ps1" "n_recv (ping ps1) = n_recv (ping ps) + int (length rs)"
      "n_replies_expected (ping ps1) = n_replies_expected (ping ps)"
      using snoc.IH [OF False snoc.prems(2,3)] snoc.prems(4) strict by auto
    let ?m = "Min (set (map (\<lambda>(t, p, h). icp_rtt h) rs))"
    have pos: "\<forall>(t, p, h)\<in>set rs. 0 < icp_rtt h" using snoc.prems(4) by auto
    have mpos: "0 < ?m" by (rule min_rtt_positive [OF False pos])
    have cp: "closer_parent env h ps1 \<longleftrightarrow> icp_rtt h < ?m"
      using icmp hx mpos ih(3) by (simp add: closer_parent_def)
    obtain ps' where s: "deliver env (t, PingReply p PEER_PARENT (Icp h)) ps1 = Inr ps'"
      "closest_parent_miss ps' = (if icp_rtt h < ?m then in_addr p else closest_parent_miss ps1)"
      "p_rtt (ping ps') = (if icp_rtt h < ?m then icp_rtt h else ?m)"
      "n_recv (ping ps1) + 1 < n_replies_expected (ping ps1)
         \<longrightarrow> ping_waiting ps' \<and> n_recv (ping ps') = n_recv (ping ps1) + 1
             \<and> n_replies_expected (ping ps') = n_replies_expected (ping ps1)"
      using parent_miss_step [OF ih(4) hx(1,4), of env t] cp ih(3) by auto
    have r: "run env (parent_miss_events (rs @ [x])) ps = Inr ps'"
      unfolding ev run_append using ih(1) s(1) by simp
    have sn: "Min (set (map (\<lambda>(t, p, h). icp_rtt h) (rs @ [x]))) = min ?m (icp_rtt h)"
      "min_rtt_peer (rs @ [x]) = (if icp_rtt h < ?m then Some p else min_rtt_peer rs)"
      using min_rtt_peer_snoc [OF False, of t p h] by (simp_all add: x)
    have "Some (closest_parent_miss ps') = map_option in_addr (min_rtt_peer (rs @ [x]))"
      unfolding sn(2) using s(2) ih(2) by simp
    moreover have "p_rtt (ping ps') = Min (set (map (\<lambda>(t, p, h). icp_rtt h) (rs @ [x])))"
      unfolding sn(1) using s(3) by (simp add: min_def)
    moreover have "n_recv (ping ps) + int (length (rs @ [x])) < n_replies_expected (ping ps)
                \<longrightarrow> ping_waiting ps' \<and> n_recv (ping ps') = n_recv (ping ps) + int (length (rs @ [x]))
                    \<and> n_replies_expected (ping ps') = n_replies_expected (ping ps)"
      using s(4) ih(5,6) by simp
    ultimately show ?thesis using r by blast
  qed
qed

text \<open>
  For ICP replies the property of claim C4 holds.  With ICMP querying compiled in and
  enabled, take a context in the ping wait with
  no parent RTT recorded yet, and a non-empty sequence of ICP MISS replies from parents,
  each carrying RTT data with a positive \<open>rtt\<close>, no longer than the replies still
  expected.  Delivering the sequence returns, and then \<open>closest_parent_miss\<close> is the
  address of the first peer of the sequence whose \<open>rtt\<close> is the least one (a later equal
  \<open>rtt\<close> does not replace it), and \<open>p_rtt\<close> is that least \<open>rtt\<close>.
\<close>

theorem closest_parent_miss_minimum_rtt:
  assumes "USE_ICMP env" and "query_icmp env"
    and "ping_waiting ps" and "p_rtt (ping ps) = 0"
    and "rs \<noteq> []"
    and "\<forall>(t, p, h)\<in>set rs. opcode h = ICP_MISS \<and> (flags h AND ICP_FLAG_SRC_RTT env) \<noteq> 0
            \<and> 0 < icp_rtt h \<and> weight p \<noteq> 0"
    and "n_recv (ping ps) + int (length rs) \<le> n_replies_expected (ping ps)"
  shows "\<exists>ps'. run env (parent_miss_events rs) ps = Inr ps'
           \<and> Some (closest_parent_miss ps') = map_option in_addr (min_rtt_peer rs)
           \<and> p_rtt (ping ps') = Min (set (map (\<lambda>(t, p, h). icp_rtt h) rs))"
  using parent_miss_run [OF assms(1,2,5,3,4,6,7)] by blast

theorem closest_parent_miss_minimum_rtt_witness:
  "closest_parent_miss
     (case run (ex_env\<lparr>USE_ICMP := True, query_icmp := True\<rparr>)
             (parent_miss_events [(1, ex_peer 1, ex_miss 50), (2, ex_peer 2, ex_miss 30),
                (3, ex_peer 3, ex_miss 30)]) ex_waiting of
        Inr ps' \<Rightarrow> ps' | Inl f \<Rightarrow> ex_ps) = ex_addr 2"
proof -
  let ?env = "ex_env\<lparr>USE_ICMP := True, query_icmp := True\<rparr>"
  let ?rs = "[(1, ex_peer 1, ex_miss 50), (2, ex_peer 2, ex_miss 30), (3, ex_peer 3, ex_miss 30)]"
  have rtt: "icp_rtt (ex_miss 50) = 50" "icp_rtt (ex_miss 30) = 30"
    by (simp_all add: icp_rtt_def ex_miss_def)
  have fl: "(flags (ex_miss 50) AND ICP_FLAG_SRC_RTT ?env) \<noteq> 0"
    "(flags (ex_miss 30) AND ICP_FLAG_SRC_RTT ?env) \<noteq> 0"
    by (simp_all add: ex_miss_def ex_env_def)
  have m: "min_rtt_peer ?rs = Some (ex_peer 2)"
    by (simp add: min_rtt_peer_def rtt)
  have h1: "USE_ICMP ?env" "query_icmp ?env" by simp_all
  have h2: "ping_waiting ex_waiting" "p_rtt (ping ex_waiting) = 0"
    by (simp_all add: ex_waiting_def ping_waiting_def ex_ps_def new_ps_state_def
        new_ping_data_def ex_entry_def)
  have h3: "\<forall>(t, p, h)\<in>set ?rs. opcode h = ICP_MISS \<and> (flags h AND ICP_FLAG_SRC_RTT ?env) \<noteq> 0
            \<and> 0 < icp_rtt h \<and> weight p \<noteq> 0"
    using rtt fl by (simp add: ex_miss_def ex_peer_def)
  have h4: "n_recv (ping ex_waiting) + int (length ?rs) \<le> n_replies_expected (ping ex_waiting)"
    by (simp add: ex_waiting_def new_ping_data_def)
  obtain ps' where "run ?env (parent_miss_events ?rs) ex_waiting = Inr ps'"
    "Some (closest_parent_miss ps') = map_option in_addr (min_rtt_peer ?rs)"
    using closest_parent_miss_minimum_rtt [OF h1 h2 _ h3 h4] by auto
  then show ?thesis
    unfolding m by (simp add: ex_peer_def)
qed

subsection \<open>HTCP replies and the closest parent\<close>

lemma peerHtcpParentMiss_below_one:
  assumes "cto_rtt_int htcp = 0" and "peerHtcpParentMiss env p htcp ps = Inr ps'"
  shows "closest_parent_miss ps' = closest_parent_miss ps \<and> p_rtt (ping ps') = p_rtt (ping ps)"
proof -
  have z: "int32 (cto_rtt_int htcp * 1000) = 0" using assms(1) by (simp add: int32_def)
  define ps1 where "ps1 = (if USE_ICMP env \<and> query_icmp env \<and> cto_rtt_positive htcp
      then ps\<lparr>netdb_updates := netdb_updates ps @ [(p, 0, int32 (cto_hops_int htcp * 1000))]\<rparr>
      else ps)"
  have E: "(if USE_ICMP env \<and> query_icmp env \<and> cto_rtt_positive htcp then
           (let rtt = int32 (cto_rtt_int htcp * 1000);
                hops = int32 (cto_hops_int htcp * 1000);
                psa = ps\<lparr>netdb_updates := netdb_updates ps @ [(p, rtt, hops)]\<rparr>
            in if rtt \<noteq> 0 \<and> (p_rtt (ping psa) = 0 \<or> rtt < p_rtt (ping psa))
               then psa\<lparr>closest_parent_miss := in_addr p, ping := (ping psa)\<lparr>p_rtt := rtt\<rparr>\<rparr>
               else psa)
         else ps) = ps1"
    by (simp add: z Let_def ps1_def)
  have f1: "closest_parent_miss ps1 = closest_parent_miss ps" "p_rtt (ping ps1) = p_rtt (ping ps)"
    by (simp_all add: ps1_def)
  have unfold: "peerHtcpParentMiss env p htcp ps =
      (if closest_only p then Inr ps1
         else if \<not> IsAnyAddr (closest_parent_miss ps1) then Inr ps1
         else if weight p = 0 then Inl DivisionByZero
         else
           (let rtt0 = int32 (int32 (tvSubMsec (start (ping ps1)) (current_time ps1) - basetime p) sdiv weight p);
                rtt = (if rtt0 < 1 then 1 else rtt0)
            in if IsAnyAddr (first_parent_miss ps1) \<or> rtt < w_rtt (ping ps1)
               then Inr (ps1\<lparr>first_parent_miss := in_addr p, ping := (ping ps1)\<lparr>w_rtt := rtt\<rparr>\<rparr>)
               else Inr ps1))"
    unfolding peerHtcpParentMiss_def E by (simp only: Let_def)
  have "ps' = ps1 \<or> (\<exists>r. ps' = ps1\<lparr>first_parent_miss := in_addr p, ping := (ping ps1)\<lparr>w_rtt := r\<rparr>\<rparr>)"
    using assms(2) unfolding unfold Let_def
    by (cases "closest_only p") (auto split: if_splits)
  then show ?thesis using f1 by auto
qed

text \<open>
  Claim C4 fails for HTCP replies.  \<^verbatim>\<open>peerHtcpParentMiss\<close> accepts a reply by the test
  \<^verbatim>\<open>cto.rtt > 0\<close>, but \<^verbatim>\<open>(int) htcp->cto.rtt * 1000\<close> casts before it multiplies, so the
  fraction is lost.  With ICMP querying on and three neighbours pinged, parent 1 answers
  an HTCP MISS with a positive \<open>rtt\<close> below 1: nothing is recorded.  Parent 2 then answers
  with an \<open>rtt\<close> of integer part 2: it is recorded as the closest parent, at 2000, although
  the reply of parent 1 had the least positive \<open>rtt\<close>.
\<close>

theorem htcp_closest_parent_miss_not_minimum:
  "(case selection (ex_env_pings\<lparr>USE_ICMP := True, query_icmp := True\<rparr>) []
           ex_request (Some ex_entry) True 0
           [(1, PingReply (ex_peer 1) PEER_PARENT (Htcp (ex_htcp_miss 0)))] of
      Inl f \<Rightarrow> None
    | Inr ps \<Rightarrow> Some (closest_parent_miss ps, p_rtt (ping ps), n_recv (ping ps)))
   = Some (no_addr, 0, 1)
   \<and> (case selection (ex_env_pings\<lparr>USE_ICMP := True, query_icmp := True\<rparr>) []
           ex_request (Some ex_entry) True 0
           [(1, PingReply (ex_peer 1) PEER_PARENT (Htcp (ex_htcp_miss 0))),
            (2, PingReply (ex_peer 2) PEER_PARENT (Htcp (ex_htcp_miss 2)))] of
      Inl f \<Rightarrow> None
    | Inr ps \<Rightarrow> Some (closest_parent_miss ps, p_rtt (ping ps), n_recv (ping ps)))
   = Some (ex_addr 2, 2000, 2)"
  by code_simp

subsection \<open>An ICP HIT during the ping wait\<close>

lemma peerCheckNetdbDirect_cong:
  assumes "direct ps' = direct ps" and "request ps' = request ps"
    and "closest_parent_miss ps' = closest_parent_miss ps" and "p_rtt (ping ps') = p_rtt (ping ps)"
  shows "peerCheckNetdbDirect env ps' = peerCheckNetdbDirect env ps"
  unfolding peerCheckNetdbDirect_def assms by (rule refl)

lemma non_hit_step:
  assumes W: "ping_waiting ps"
    and h: "opcode header \<noteq> ICP_HIT" and w: "weight p \<noteq> 0"
    and early: "n_recv (ping ps) + 1 < n_replies_expected (ping ps)"
  shows "\<exists>ps'. deliver env (t, PingReply p type (Icp header)) ps = Inr ps'
           \<and> ping_waiting ps' \<and> servers ps' = servers ps
           \<and> n_recv (ping ps') = n_recv (ping ps) + 1
           \<and> n_replies_expected (ping ps') = n_replies_expected (ping ps)"
proof -
  define pst where "pst = ps\<lparr>current_time := t\<rparr>"
  obtain cl fpm pg nu n where c0:
    "n_recv pg = n_recv (ping pst) + 1"
    "n_replies_expected pg = n_replies_expected (ping pst)"
    "peerHandleIcpReply env p type header pst =
               (if opcode header = ICP_HIT then
                  peerSelectFoo env
                    (pst\<lparr>closest_parent_miss := cl, first_parent_miss := fpm, ping := pg,
                        netdb_updates := nu, null_entry_url := n, hit := Some p, hit_type := type\<rparr>)
                else if n_recv pg < n_replies_expected pg then
                  Inr (pst\<lparr>closest_parent_miss := cl, first_parent_miss := fpm, ping := pg,
                         netdb_updates := nu, null_entry_url := n\<rparr>)
                else
                  peerSelectFoo env
                    (pst\<lparr>closest_parent_miss := cl, first_parent_miss := fpm, ping := pg,
                        netdb_updates := nu, null_entry_url := n\<rparr>))"
    using peerHandleIcpReply_cases [OF w, where ps = pst and type = type
        and header = header and env = env]
    by blast
  have c: "n_recv pg = n_recv (ping pst) + 1"
    "n_replies_expected pg = n_replies_expected (ping pst)"
    "peerHandleIcpReply env p type header pst =
       (if n_recv pg < n_replies_expected pg then
          Inr (pst\<lparr>closest_parent_miss := cl, first_parent_miss := fpm, ping := pg,
                 netdb_updates := nu, null_entry_url := n\<rparr>)
        else
          peerSelectFoo env
            (pst\<lparr>closest_parent_miss := cl, first_parent_miss := fpm, ping := pg,
                netdb_updates := nu, null_entry_url := n\<rparr>))"
    using c0 h by simp_all
  define ps1 where "ps1 = pst\<lparr>closest_parent_miss := cl, first_parent_miss := fpm, ping := pg,
                 netdb_updates := nu, null_entry_url := n\<rparr>"
  have W1: "ping_waiting ps1"
    unfolding ps1_def pst_def using ping_waiting_update [OF W] by simp
  have lt: "n_recv pg < n_replies_expected pg"
    using c(1,2) early by (simp add: pst_def)
  have "deliver env (t, PingReply p type (Icp header)) ps = Inr ps1"
    using deliver_reply_waiting [OF W, of env t p type "Icp header"] c(3) lt
    by (simp add: peerHandlePingReply_def pst_def ps1_def)
  moreover have "servers ps1 = servers ps" "n_recv (ping ps1) = n_recv (ping ps) + 1"
    "n_replies_expected (ping ps1) = n_replies_expected (ping ps)"
    using c(1,2) by (simp_all add: ps1_def pst_def)
  ultimately show ?thesis using W1 by blast
qed

lemma non_hit_run:
  "ping_waiting ps
   \<Longrightarrow> \<forall>ev\<in>set pre. \<exists>t p ty h. ev = (t, PingReply p ty (Icp h)) \<and> opcode h \<noteq> ICP_HIT
          \<and> weight p \<noteq> 0
   \<Longrightarrow> n_recv (ping ps) + int (length pre) < n_replies_expected (ping ps)
   \<Longrightarrow> \<exists>ps1. run env pre ps = Inr ps1 \<and> ping_waiting ps1 \<and> servers ps1 = servers ps
          \<and> n_recv (ping ps1) = n_recv (ping ps) + int (length pre)
          \<and> n_replies_expected (ping ps1) = n_replies_expected (ping ps)"
proof (induction pre arbitrary: ps)
  case Nil
  then show ?case by simp
next
  case (Cons ev pre)
  obtain t p ty h where ev: "ev = (t, PingReply p ty (Icp h))" "opcode h \<noteq> ICP_HIT"
    "weight p \<noteq> 0"
    using Cons.prems(2) by auto
  have early: "n_recv (ping ps) + 1 < n_replies_expected (ping ps)"
    using Cons.prems(3) by simp
  obtain ps' where s: "deliver env ev ps = Inr ps'" "ping_waiting ps'" "servers ps' = servers ps"
    "n_recv (ping ps') = n_recv (ping ps) + 1"
    "n_replies_expected (ping ps') = n_replies_expected (ping ps)"
    using non_hit_step [OF Cons.prems(1) ev(2,3) early, of env t ty] ev(1) by auto
  have "n_recv (ping ps') + int (length pre) < n_replies_expected (ping ps')"
    using Cons.prems(3) s(4,5) by simp
  then obtain ps1 where "run env pre ps' = Inr ps1" "ping_waiting ps1" "servers ps1 = servers ps'"
    "n_recv (ping ps1) = n_recv (ping ps') + int (length pre)"
    "n_replies_expected (ping ps1) = n_replies_expected (ping ps')"
    using Cons.IH [OF s(2)] Cons.prems(2) by auto
  then show ?case using s by simp
qed

lemma hit_step:
  assumes W: "ping_waiting ps" and h: "opcode header = ICP_HIT" and w: "weight p \<noteq> 0"
  shows "\<exists>ps' rest.
           deliver env (t, PingReply p type (Icp header)) ps = Inr ps'
           \<and> hit ps' = Some p \<and> hit_type ps' = type
           \<and> (freed ps' \<or> (\<exists>e. entry ps' = Some e \<and> ping_status e = PING_DONE))
           \<and> servers ps' = servers ps
                @ (if peerCheckNetdbDirect env ps then (None, CLOSEST_DIRECT)
                   else (Some p, if type = PEER_PARENT then PARENT_HIT else SIBLING_HIT)) # rest
           \<and> (\<forall>fs\<in>set rest. snd fs \<in> switch_codes)
           \<and> (\<not> freed ps' \<longrightarrow> event_queue ps' = event_queue ps)"
proof -
  define pst where "pst = ps\<lparr>current_time := t\<rparr>"
  obtain cl fpm pg nu n where c0:
    "if type = PEER_PARENT \<and> (opcode header = ICP_MISS \<or> opcode header = ICP_DECHO)
               then cl = (if closer_parent env header pst then in_addr p else closest_parent_miss pst)
                  \<and> p_rtt pg = (if closer_parent env header pst then icp_rtt header else p_rtt (ping pst))
               else cl = closest_parent_miss pst \<and> p_rtt pg = p_rtt (ping pst)"
    "peerHandleIcpReply env p type header pst =
               (if opcode header = ICP_HIT then
                  peerSelectFoo env
                    (pst\<lparr>closest_parent_miss := cl, first_parent_miss := fpm, ping := pg,
                        netdb_updates := nu, null_entry_url := n, hit := Some p, hit_type := type\<rparr>)
                else if n_recv pg < n_replies_expected pg then
                  Inr (pst\<lparr>closest_parent_miss := cl, first_parent_miss := fpm, ping := pg,
                         netdb_updates := nu, null_entry_url := n\<rparr>)
                else
                  peerSelectFoo env
                    (pst\<lparr>closest_parent_miss := cl, first_parent_miss := fpm, ping := pg,
                        netdb_updates := nu, null_entry_url := n\<rparr>))"
    using peerHandleIcpReply_cases [OF w, where ps = pst and type = type
        and header = header and env = env]
    by blast
  have c: "cl = closest_parent_miss pst" "p_rtt pg = p_rtt (ping pst)"
    "peerHandleIcpReply env p type header pst =
          peerSelectFoo env
            (pst\<lparr>closest_parent_miss := cl, first_parent_miss := fpm, ping := pg,
                netdb_updates := nu, null_entry_url := n, hit := Some p, hit_type := type\<rparr>)"
    using c0 h by simp_all
  define psh where "psh = pst\<lparr>closest_parent_miss := cl, first_parent_miss := fpm, ping := pg,
                netdb_updates := nu, null_entry_url := n, hit := Some p, hit_type := type\<rparr>"
  have Wh: "ping_waiting psh"
    using W by (simp add: psh_def pst_def ping_waiting_def)
  obtain e where e: "entry psh = Some e" "ping_status e = PING_WAITING"
    and d: "direct psh = DIRECT_NO \<or> direct psh = DIRECT_MAYBE" and cb: "callback psh"
    using Wh by (auto simp: ping_waiting_def split: option.splits)
  have nd: "peerCheckNetdbDirect env psh = peerCheckNetdbDirect env ps"
    by (rule peerCheckNetdbDirect_cong) (simp_all add: psh_def pst_def c(1,2))
  have agg: "aggregator_records env psh =
       [if peerCheckNetdbDirect env ps then (None, CLOSEST_DIRECT)
        else (Some p, if type = PEER_PARENT then PARENT_HIT else SIBLING_HIT)]"
    unfolding aggregator_records_def nd by (simp add: psh_def)
  obtain xs where xs: "peerSelectFoo env psh =
            peerSelectDnsPaths env
              (psh\<lparr>servers := servers psh @ aggregator_records env psh @ xs,
                  entry := Some (e\<lparr>ping_status := PING_DONE\<rparr>)\<rparr>)"
    "\<forall>fs\<in>set xs. snd fs \<in> switch_codes"
    using peerSelectFoo_waiting [OF e d, of env] by blast
  define ps1 where "ps1 = psh\<lparr>servers := servers psh @ aggregator_records env psh @ xs,
                  entry := Some (e\<lparr>ping_status := PING_DONE\<rparr>)\<rparr>"
  have cb1: "callback ps1" using cb by (simp add: ps1_def)
  obtain ps' where r: "peerSelectDnsPaths env ps1 = Inr ps'"
    using peerSelectDnsPaths_returns [OF cb1] by blast
  have f: "hit ps' = hit ps1 \<and> hit_type ps' = hit_type ps1 \<and> servers ps' = servers ps1
        \<and> (freed ps' \<or> entry ps' = entry ps1 \<and> event_queue ps' = event_queue ps1)"
  proof (cases "servers ps1 \<noteq> [] \<and> length (paths ps1) < unsigned_int (forward_max_tries env)")
    case True
    then show ?thesis
      using r peerSelectDnsPaths_lookup [of ps1 env] by (auto simp: entry_url_def)
  next
    case False
    then show ?thesis using peerSelectDnsPaths_finish [OF _ r] by auto
  qed
  have q: "\<not> freed ps' \<longrightarrow> event_queue ps' = event_queue ps"
    using f by (auto simp: ps1_def psh_def pst_def)
  have d: "deliver env (t, PingReply p type (Icp header)) ps = Inr ps'"
    using deliver_reply_waiting [OF W, of env t p type "Icp header"] c(3) xs(1) r
    by (simp add: peerHandlePingReply_def pst_def psh_def ps1_def)
  have "hit ps' = Some p" "hit_type ps' = type"
    "freed ps' \<or> (\<exists>e. entry ps' = Some e \<and> ping_status e = PING_DONE)"
    using f by (auto simp: ps1_def psh_def)
  moreover have "servers ps' = servers ps
                @ (if peerCheckNetdbDirect env ps then (None, CLOSEST_DIRECT)
                   else (Some p, if type = PEER_PARENT then PARENT_HIT else SIBLING_HIT)) # xs"
    using f agg by (simp add: ps1_def psh_def pst_def)
  ultimately show ?thesis using d xs(2) q by blast
qed

lemma late_replies_dropped:
  assumes "freed ps \<or> (\<exists>e. entry ps = Some e \<and> ping_status e = PING_DONE)"
    and "\<forall>ev\<in>set post. \<exists>p ty pd. snd ev = PingReply p ty pd"
  shows "run env post ps = Inr ps"
  using assms(2)
proof (induction post)
  case Nil
  then show ?case by simp
next
  case (Cons ev post)
  obtain p ty pd where "snd ev = PingReply p ty pd" using Cons.prems by auto
  then have "deliver env ev ps = Inr ps"
    using assms(1) by (auto simp: deliver_def deliverable_def)
  then show ?case using Cons by simp
qed
text \<open>
  C3 as stated fails: a HIT does not always put the HIT peer on the list.  Parent 1
  answers MISS with an \<open>rtt\<close> of 50 ms, then parent 2 answers HIT; the origin is known at
  40 ms, so the net-db direct check now succeeds and the aggregator appends
  \<open>CLOSEST_DIRECT\<close> and returns before it looks at the HIT.
\<close>

theorem icp_hit_closest_direct_counterexample:
  "(case selection ex_env_netdb [] ex_request (Some ex_entry) True 0
           [(1, PingReply (ex_peer 1) PEER_PARENT (Icp (ex_miss 50))),
            (2, PingReply (ex_peer 2) PEER_PARENT (Icp ex_hit))] of
      Inl f \<Rightarrow> None
    | Inr ps \<Rightarrow> Some (hit ps, servers ps))
   = Some (Some (ex_peer 2), [(None, CLOSEST_DIRECT), (None, HIER_DIRECT)])"
  by code_simp
text \<open>
  C3, amended.  Take a context in the ping wait and ICP replies, none of them a HIT and
  fewer than the replies still expected, followed by an ICP HIT.  The replies before the
  HIT leave the servers list alone and the context waiting.  The HIT records its peer
  and relation and finalizes at once, whatever is still outstanding: the entry leaves
  \<open>PING_WAITING\<close> (or the context is already released).  The finalized selection appends
  the HIT peer, tagged \<open>PARENT_HIT\<close> or \<open>SIBLING_HIT\<close>, unless the net-db direct check
  succeeds at that moment, and then it appends \<open>CLOSEST_DIRECT\<close> instead; what follows is
  appended by the switch, so no record appended is tagged \<open>FIRST_PARENT_MISS\<close> or
  \<open>CLOSEST_PARENT_MISS\<close>.  Replies arriving after that are not delivered any more and
  change nothing.
\<close>

theorem icp_hit_finalizes_at_once:
  assumes "ping_waiting ps"
    and "\<forall>ev\<in>set pre. \<exists>t p ty h. ev = (t, PingReply p ty (Icp h)) \<and> opcode h \<noteq> ICP_HIT
           \<and> weight p \<noteq> 0"
    and "n_recv (ping ps) + int (length pre) < n_replies_expected (ping ps)"
    and "opcode header = ICP_HIT" and "weight p \<noteq> 0"
    and "\<forall>ev\<in>set post. \<exists>p ty pd. snd ev = PingReply p ty pd"
  shows "\<exists>ps1 ps2 rest.
           run env pre ps = Inr ps1 \<and> ping_waiting ps1 \<and> servers ps1 = servers ps
           \<and> deliver env (t, PingReply p type (Icp header)) ps1 = Inr ps2
           \<and> hit ps2 = Some p \<and> hit_type ps2 = type
           \<and> \<not> ping_waiting ps2
           \<and> servers ps2 = servers ps
                @ (if peerCheckNetdbDirect env ps1 then (None, CLOSEST_DIRECT)
                   else (Some p, if type = PEER_PARENT then PARENT_HIT else SIBLING_HIT)) # rest
           \<and> (\<forall>fs\<in>set (drop (length (servers ps)) (servers ps2)).
                 snd fs \<noteq> FIRST_PARENT_MISS \<and> snd fs \<noteq> CLOSEST_PARENT_MISS)
           \<and> run env post ps2 = Inr ps2"
proof -
  obtain ps1 where p1: "run env pre ps = Inr ps1" "ping_waiting ps1" "servers ps1 = servers ps"
    using non_hit_run [OF assms(1,2,3), of env] by blast
  obtain ps2 rest where p2: "deliver env (t, PingReply p type (Icp header)) ps1 = Inr ps2"
    "hit ps2 = Some p" "hit_type ps2 = type"
    "freed ps2 \<or> (\<exists>e. entry ps2 = Some e \<and> ping_status e = PING_DONE)"
    "servers ps2 = servers ps1
                @ (if peerCheckNetdbDirect env ps1 then (None, CLOSEST_DIRECT)
                   else (Some p, if type = PEER_PARENT then PARENT_HIT else SIBLING_HIT)) # rest"
    "\<forall>fs\<in>set rest. snd fs \<in> switch_codes"
    using hit_step [OF p1(2) assms(4,5), of env t type] by blast
  have nw: "\<not> ping_waiting ps2"
    using p2(4) by (auto simp: ping_waiting_def)
  have late: "run env post ps2 = Inr ps2"
    by (rule late_replies_dropped [OF p2(4) assms(6)])
  have "\<forall>fs\<in>set ((if peerCheckNetdbDirect env ps1 then (None, CLOSEST_DIRECT)
                   else (Some p, if type = PEER_PARENT then PARENT_HIT else SIBLING_HIT)) # rest).
          snd fs \<noteq> FIRST_PARENT_MISS \<and> snd fs \<noteq> CLOSEST_PARENT_MISS"
    using p2(6) by (auto simp: switch_codes_def)
  then have codes: "\<forall>fs\<in>set (drop (length (servers ps)) (servers ps2)).
                 snd fs \<noteq> FIRST_PARENT_MISS \<and> snd fs \<noteq> CLOSEST_PARENT_MISS"
    unfolding p2(5) p1(3) by simp
  have s2: "servers ps2 = servers ps
                @ (if peerCheckNetdbDirect env ps1 then (None, CLOSEST_DIRECT)
                   else (Some p, if type = PEER_PARENT then PARENT_HIT else SIBLING_HIT)) # rest"
    using p2(5) unfolding p1(3) .
  show ?thesis
    using p1 p2(1,2,3) nw s2 codes late by blast
qed

theorem icp_hit_finalizes_at_once_witness:
  "(case selection ex_env_pings [] ex_request (Some ex_entry) True 0
           [(1, PingReply (ex_peer 1) PEER_PARENT (Icp (ex_miss 50))),
            (2, PingReply (ex_peer 2) PEER_PARENT (Icp ex_hit)),
            (3, PingReply (ex_peer 3) PEER_PARENT (Icp (ex_miss 20)))] of
      Inl f \<Rightarrow> None
    | Inr ps \<Rightarrow> Some (hit ps, hit_type ps, servers ps))
   = Some (Some (ex_peer 2), PEER_PARENT, [(Some (ex_peer 2), PARENT_HIT), (None, HIER_DIRECT)])"
proof -
  define w where "w = ex_ps\<lparr>request := ex_request\<lparr>msg_locks := 1\<rparr>,
     entry := Some (ex_entry\<lparr>ping_status := PING_WAITING, lock_count := 1\<rparr>), callback := True,
     direct := DIRECT_MAYBE,
     ping := new_ping_data\<lparr>n_sent := 3, n_replies_expected := 3, timeout := 2000\<rparr>,
     event_queue := 1\<rparr>"
  have start: "peerSelect ex_env_pings [] ex_request (Some ex_entry) True 0 = Inr w"
    unfolding w_def by code_simp
  have W: "ping_waiting w"
    unfolding w_def by code_simp
  have pre: "\<forall>ev\<in>set [(1, PingReply (ex_peer 1) PEER_PARENT (Icp (ex_miss 50)))].
       \<exists>t p ty h. ev = (t, PingReply p ty (Icp h)) \<and> opcode h \<noteq> ICP_HIT \<and> weight p \<noteq> 0"
    by (simp add: ex_miss_def ex_peer_def)
  have early: "n_recv (ping w) + int (length [(1::int, PingReply (ex_peer 1) PEER_PARENT (Icp (ex_miss 50)))])
       < n_replies_expected (ping w)"
    by (simp add: w_def new_ping_data_def)
  have post: "\<forall>ev\<in>set [(3::int, PingReply (ex_peer 3) PEER_PARENT (Icp (ex_miss 20)))].
       \<exists>p ty pd. snd ev = PingReply p ty pd"
    by simp
  obtain ps1 ps2 rest where r:
    "run ex_env_pings [(1, PingReply (ex_peer 1) PEER_PARENT (Icp (ex_miss 50)))] w = Inr ps1"
    "deliver ex_env_pings (2, PingReply (ex_peer 2) PEER_PARENT (Icp ex_hit)) ps1 = Inr ps2"
    "hit ps2 = Some (ex_peer 2)" "hit_type ps2 = PEER_PARENT"
    "run ex_env_pings [(3, PingReply (ex_peer 3) PEER_PARENT (Icp (ex_miss 20)))] ps2 = Inr ps2"
    using icp_hit_finalizes_at_once [OF W pre early _ _ post, of ex_hit "ex_peer 2" ex_env_pings 2 PEER_PARENT]
    by (auto simp: ex_hit_def ex_peer_def)
  have all: "selection ex_env_pings [] ex_request (Some ex_entry) True 0
           [(1, PingReply (ex_peer 1) PEER_PARENT (Icp (ex_miss 50))),
            (2, PingReply (ex_peer 2) PEER_PARENT (Icp ex_hit)),
            (3, PingReply (ex_peer 3) PEER_PARENT (Icp (ex_miss 20)))] = Inr ps2"
  proof -
    have d1: "deliver ex_env_pings (1, PingReply (ex_peer 1) PEER_PARENT (Icp (ex_miss 50))) w
        = Inr ps1"
      using r(1) by (simp split: sum.splits)
    have d3: "deliver ex_env_pings (3, PingReply (ex_peer 3) PEER_PARENT (Icp (ex_miss 20))) ps2
        = Inr ps2"
      using r(5) by (simp split: sum.splits)
    show ?thesis using d1 r(2) d3 by (simp add: selection_def start)
  qed
  have "servers ps2 = [(Some (ex_peer 2), PARENT_HIT), (None, HIER_DIRECT)]"
  proof -
    have "(case selection ex_env_pings [] ex_request (Some ex_entry) True 0
           [(1, PingReply (ex_peer 1) PEER_PARENT (Icp (ex_miss 50))),
            (2, PingReply (ex_peer 2) PEER_PARENT (Icp ex_hit)),
            (3, PingReply (ex_peer 3) PEER_PARENT (Icp (ex_miss 20)))] of
          Inl f \<Rightarrow> [] | Inr ps \<Rightarrow> servers ps)
        = [(Some (ex_peer 2), PARENT_HIT), (None, HIER_DIRECT)]"
      by code_simp
    then show ?thesis unfolding all by simp
  qed
  then show ?thesis unfolding all using r(3,4) by simp
qed
subsection \<open>The ping timer after an early finalization\<close>

text \<open>
  C8 fails on the code.  The only \<^verbatim>\<open>eventDelete\<close> of the file, in
  \<^verbatim>\<open>peerSelectStateFree\<close>, runs when the entry is still in \<open>PING_WAITING\<close>; but
  \<^verbatim>\<open>peerSelectFoo\<close> sets \<open>PING_DONE\<close> as soon as the aggregator has run.  Three pings are
  out and parent 2 answers HIT: the selection finalizes and waits for DNS, with the timer
  event still scheduled.  When the timer then fires, \<^verbatim>\<open>peerPingTimeout\<close> runs on the
  finalized context, marks it timed out and enters \<^verbatim>\<open>peerSelectFoo\<close> again, which
  appends a second \<open>HIER_DIRECT\<close> and issues a second DNS lookup.
\<close>

theorem ping_timer_not_cancelled:
  "(case selection ex_env_pings [] ex_request (Some ex_entry) True 0
           [(2, PingReply (ex_peer 2) PEER_PARENT (Icp ex_hit))] of
      Inl f \<Rightarrow> None
    | Inr ps \<Rightarrow> Some (map_option ping_status (entry ps), event_queue ps,
                      deliverable PingTimeout ps, servers ps, dns_lookups ps))
   = Some (Some PING_DONE, 1, True,
           [(Some (ex_peer 2), PARENT_HIT), (None, HIER_DIRECT)], [''parent''])
   \<and> (case selection ex_env_pings [] ex_request (Some ex_entry) True 0
           [(2, PingReply (ex_peer 2) PEER_PARENT (Icp ex_hit)), (2000, PingTimeout)] of
      Inl f \<Rightarrow> None
    | Inr ps \<Rightarrow> Some (timedout (ping ps), PeerStats_timeouts ps, servers ps, dns_lookups ps))
   = Some (1, 1, [(Some (ex_peer 2), PARENT_HIT), (None, HIER_DIRECT), (None, HIER_DIRECT)],
           [''parent'', ''parent''])"
  by code_simp

subsection \<open>The invariant of a selection\<close>



lemma work_left_live:
  "\<not> freed ps \<Longrightarrow>
   work_left env ps = 1 + length (servers ps) + (pass_servers env + 1) * (acl_left ps + ping_left ps)"
  by (simp add: work_left_def)

lemma work_left_freed: "freed ps \<Longrightarrow> work_left env ps = 0"
  by (simp add: work_left_def)











end
